theory Spec2Isabelle
  imports Complex_Main "HOL-Library.AList" "HOL-Library.Sublist"
begin

section \<open>Values and exceptions of the proxy\<close>

text \<open>
  The handler inspects frames with \<^verbatim>\<open>json.loads\<close>. A parsed value is one of the
  Python values that the decoder produces. A Python \<^verbatim>\<open>dict\<close> keeps its insertion
  order, so it is an association list; lookups go through \<open>map_of\<close>.
\<close>

datatype json =
    JNull
  | JBool bool
  | JInt int
  | JFloat rat
  | JStr string
  | JList "json list"
  | JDict "(string \<times> json) list"

type_synonym pydict = "(string \<times> json) list"

text \<open>The exception classes that the handler raises, catches or lets through.\<close>

datatype py_error =
    JSONDecodeError
  | KeyError
  | AttributeError
  | TypeError
  | TimeoutError
  | InvalidStatusCode nat
  | WebSocketException
  | OtherException

text \<open>A frame is a text (\<^verbatim>\<open>str\<close>) or a binary (\<^verbatim>\<open>bytes\<close>) message.\<close>

datatype frame = Text string | Binary string

text \<open>
  The library functions the handler calls and does not define: \<^verbatim>\<open>json.loads\<close>
  (which raises on some frames), \<^verbatim>\<open>json.dumps\<close>, \<^verbatim>\<open>json.dumps\<close> with
  \<^verbatim>\<open>sort_keys=True\<close>, the built-in \<^verbatim>\<open>hash\<close> on strings, and \<^verbatim>\<open>str\<close> on a
  value that is not a string (used by the f-strings of the URL).
\<close>

record pylib =
  loads :: "frame \<Rightarrow> py_error + json"
  dumps :: "json \<Rightarrow> string"
  dumps_sorted :: "json \<Rightarrow> string"
  hash_str :: "string \<Rightarrow> int"
  repr :: "json \<Rightarrow> string"

text \<open>Sequencing of computations that may raise: the first exception wins.\<close>

fun ebind :: "'e + 'a \<Rightarrow> ('a \<Rightarrow> 'e + 'b) \<Rightarrow> 'e + 'b" where
  "ebind (Inl e) f = Inl e"
| "ebind (Inr x) f = f x"

text \<open>Python truthiness (\<^verbatim>\<open>if v:\<close>).\<close>

fun truthy :: "json \<Rightarrow> bool" where
  "truthy JNull = False"
| "truthy (JBool b) = b"
| "truthy (JInt i) = (i \<noteq> 0)"
| "truthy (JFloat r) = (r \<noteq> 0)"
| "truthy (JStr s) = (s \<noteq> [])"
| "truthy (JList xs) = (xs \<noteq> [])"
| "truthy (JDict kvs) = (kvs \<noteq> [])"

fun frame_truthy :: "frame \<Rightarrow> bool" where
  "frame_truthy (Text s) = (s \<noteq> [])"
| "frame_truthy (Binary b) = (b \<noteq> [])"

text \<open>\<^verbatim>\<open>v.get(key, default)\<close>: only a dict has the method.\<close>

fun py_get :: "json \<Rightarrow> string \<Rightarrow> json \<Rightarrow> py_error + json" where
  "py_get (JDict kvs) k d = Inr (case map_of kvs k of Some v \<Rightarrow> v | None \<Rightarrow> d)"
| "py_get _ k d = Inl AttributeError"

text \<open>
  \<^verbatim>\<open>key in v\<close> for a string key: a key test on a dict, a membership test on a
  list, a substring test on a string, and a \<^verbatim>\<open>TypeError\<close> on anything else.
\<close>

fun py_contains :: "json \<Rightarrow> string \<Rightarrow> py_error + bool" where
  "py_contains (JDict kvs) k = Inr (map_of kvs k \<noteq> None)"
| "py_contains (JList xs) k = Inr (JStr k \<in> set xs)"
| "py_contains (JStr s) k = Inr (sublist k s)"
| "py_contains _ k = Inl TypeError"

text \<open>\<^verbatim>\<open>v[key]\<close> and \<^verbatim>\<open>del v[key]\<close> for a string key.\<close>

fun py_getitem :: "json \<Rightarrow> string \<Rightarrow> py_error + json" where
  "py_getitem (JDict kvs) k = (case map_of kvs k of Some v \<Rightarrow> Inr v | None \<Rightarrow> Inl KeyError)"
| "py_getitem _ k = Inl TypeError"

fun py_delitem :: "json \<Rightarrow> string \<Rightarrow> py_error + json" where
  "py_delitem (JDict kvs) k =
     (if map_of kvs k = None then Inl KeyError else Inr (JDict (AList.delete k kvs)))"
| "py_delitem _ k = Inl TypeError"

section \<open>Identifying the agent from the first client frame\<close>

text \<open>
  What \<^verbatim>\<open>asyncio.wait_for(receive, timeout)\<close> yields: the value that
  \<^verbatim>\<open>receive\<close> returned before the bound (a frame or \<^verbatim>\<open>None\<close>), the bound
  passing first, or the exception \<^verbatim>\<open>receive\<close> raised. The client is a function of
  the bound it is given.
\<close>

datatype recv_event = Arrived "frame option" | TimedOut | RecvRaised py_error

definition timeout_seconds :: rat where
  "timeout_seconds = 10"

definition wait_for :: "(rat \<Rightarrow> recv_event) \<Rightarrow> rat \<Rightarrow> py_error + frame option" where
  "wait_for client tmo =
     (case client tmo of
        Arrived m \<Rightarrow> Inr m
      | TimedOut \<Rightarrow> Inl TimeoutError
      | RecvRaised e \<Rightarrow> Inl e)"

text \<open>
  The inner \<^verbatim>\<open>try\<close> of \<^verbatim>\<open>_get_agent_id_from_client\<close>: the value is
  \<open>Some\<close> the identifier when the function returns it from inside the block, and
  \<open>None\<close> when control falls through to the final \<^verbatim>\<open>return None\<close>.
\<close>

definition parse_first_message :: "pylib \<Rightarrow> frame \<Rightarrow> py_error + json option" where
  "parse_first_message lib first_message =
     ebind (loads lib first_message) (\<lambda>msg.
     ebind (py_get msg ''type'' JNull) (\<lambda>logged_type.
     ebind (py_get msg ''type'' JNull) (\<lambda>msg_type.
       if msg_type = JStr ''session.update'' then
         ebind (py_get msg ''session'' (JDict [])) (\<lambda>session.
         ebind (py_get session ''agent_id'' JNull) (\<lambda>agent_id.
           if truthy agent_id then Inr (Some agent_id) else Inr None))
       else
         ebind (py_get msg ''type'' JNull) (\<lambda>logged_again. Inr None))))"

definition get_agent_id_body :: "pylib \<Rightarrow> (rat \<Rightarrow> recv_event) \<Rightarrow> py_error + json option" where
  "get_agent_id_body lib client =
     ebind (wait_for client timeout_seconds) (\<lambda>first_message.
       case first_message of
         None \<Rightarrow> Inr None
       | Some m \<Rightarrow>
           if frame_truthy m then
             (case parse_first_message lib m of
                Inl e \<Rightarrow> if e = JSONDecodeError then Inr None else Inl e
              | Inr r \<Rightarrow> Inr r)
           else Inr None)"

text \<open>
  The outer handlers: \<^verbatim>\<open>except asyncio.TimeoutError\<close> and \<^verbatim>\<open>except Exception\<close>
  both log and fall through to \<^verbatim>\<open>return None\<close>. The result keeps the sum type, so
  that "does not raise" is a statement to prove.
\<close>

definition get_agent_id_from_client :: "pylib \<Rightarrow> (rat \<Rightarrow> recv_event) \<Rightarrow> py_error + json option" where
  "get_agent_id_from_client lib client =
     (case get_agent_id_body lib client of
        Inl e \<Rightarrow> (if e = TimeoutError then Inr None else Inr None)
      | Inr r \<Rightarrow> Inr r)"

section \<open>The client-to-upstream loop\<close>

text \<open>
  Item assignment \<^verbatim>\<open>d[k] = v\<close> on a dict: the value is replaced in place, a new key
  goes to the end. The nested \<^verbatim>\<open>del msg_data["session"]["agent_id"]\<close> mutates the
  session dict that \<^verbatim>\<open>msg_data\<close> holds, which is \<open>py_setitem\<close> of the stripped
  session into \<^verbatim>\<open>msg_data\<close>.
\<close>

fun py_setitem :: "json \<Rightarrow> string \<Rightarrow> json \<Rightarrow> json" where
  "py_setitem (JDict kvs) k v = JDict (AList.update k v kvs)"
| "py_setitem j k v = j"

text \<open>
  The body of the inner \<^verbatim>\<open>try\<close> of \<^verbatim>\<open>_forward_client_to_azure\<close>: the message to
  forward when no exception is raised.
\<close>

definition strip_agent_id :: "pylib \<Rightarrow> frame \<Rightarrow> py_error + frame" where
  "strip_agent_id lib message =
     ebind (loads lib message) (\<lambda>msg_data.
     ebind (py_get msg_data ''type'' JNull) (\<lambda>msg_type.
       if msg_type = JStr ''session.update'' then
         ebind (py_contains msg_data ''session'') (\<lambda>has_session.
           if has_session then
             ebind (py_getitem msg_data ''session'') (\<lambda>session.
             ebind (py_contains session ''agent_id'') (\<lambda>has_agent_id.
               if has_agent_id then
                 ebind (py_delitem session ''agent_id'') (\<lambda>stripped.
                   Inr (Text (dumps lib (py_setitem msg_data ''session'' stripped))))
               else Inr message))
           else Inr message)
       else Inr message))"

text \<open>
  The inner handler \<^verbatim>\<open>except (json.JSONDecodeError, KeyError): pass\<close> keeps the
  original message; any other exception leaves the loop body.
\<close>

definition client_frame_to_forward :: "pylib \<Rightarrow> frame \<Rightarrow> py_error + frame" where
  "client_frame_to_forward lib message =
     (case strip_agent_id lib message of
        Inl e \<Rightarrow> if e = JSONDecodeError \<or> e = KeyError then Inr message else Inl e
      | Inr m \<Rightarrow> Inr m)"

text \<open>
  The loop. The client's stream is the list of values \<^verbatim>\<open>receive\<close> returns
  (\<open>None\<close> breaks the loop); the end of the list is \<^verbatim>\<open>receive\<close> raising.
  \<open>accepts n\<close> says whether the \<open>n\<close>-th \<^verbatim>\<open>azure_ws.send\<close> returns. The result
  is the list of messages handed to \<^verbatim>\<open>azure_ws.send\<close>. An exception anywhere ends
  the loop (\<^verbatim>\<open>except Exception\<close> around the \<^verbatim>\<open>while\<close>).
\<close>

fun forward_client_to_azure :: "pylib \<Rightarrow> (nat \<Rightarrow> bool) \<Rightarrow> nat \<Rightarrow> frame option list \<Rightarrow> frame list" where
  "forward_client_to_azure lib accepts n [] = []"
| "forward_client_to_azure lib accepts n (None # rest) = []"
| "forward_client_to_azure lib accepts n (Some message # rest) =
     (case client_frame_to_forward lib message of
        Inl e \<Rightarrow> []
      | Inr out \<Rightarrow>
          out # (if accepts n then forward_client_to_azure lib accepts (Suc n) rest else []))"

section \<open>The upstream-to-client loop\<close>

text \<open>
  \<^verbatim>\<open>any(keyword in msg_type for keyword in [...])\<close>: the generator stops at the first
  hit and raises where \<^verbatim>\<open>in\<close> raises.
\<close>

fun any_keyword_in :: "string list \<Rightarrow> json \<Rightarrow> py_error + bool" where
  "any_keyword_in [] v = Inr False"
| "any_keyword_in (k # ks) v =
     (case py_contains v k of
        Inl e \<Rightarrow> Inl e
      | Inr hit \<Rightarrow> if hit then Inr True else any_keyword_in ks v)"

definition log_keywords :: "string list" where
  "log_keywords = [''session'', ''avatar'', ''sdp'', ''ice'']"

text \<open>
  What the loop body decides for one message: \<open>Suppress\<close> is the \<^verbatim>\<open>continue\<close>,
  \<open>Forward h\<close> goes on to \<^verbatim>\<open>client_ws.send\<close> with \<open>h\<close> the value of
  \<^verbatim>\<open>last_session_updated_hash\<close> afterwards.
\<close>

datatype verdict = Suppress | Forward "int option"

definition inspect_upstream :: "pylib \<Rightarrow> int option \<Rightarrow> frame \<Rightarrow> py_error + verdict" where
  "inspect_upstream lib last_session_updated_hash message =
     ebind (loads lib message) (\<lambda>msg_data.
     ebind (py_get msg_data ''type'' (JStr [])) (\<lambda>msg_type.
       if msg_type = JStr ''session.updated'' then
         ebind (py_get msg_data ''session'' (JDict [])) (\<lambda>session.
           let session_hash = hash_str lib (dumps_sorted lib session) in
           if Some session_hash = last_session_updated_hash then Inr Suppress
           else
             ebind (py_get msg_data ''session'' (JDict [])) (\<lambda>logged_session.
             ebind (py_get logged_session ''avatar'' (JDict [])) (\<lambda>avatar.
             ebind (any_keyword_in log_keywords msg_type) (\<lambda>hit.
               Inr (Forward (Some session_hash))))))
       else
         ebind (any_keyword_in log_keywords msg_type) (\<lambda>hit.
           Inr (Forward last_session_updated_hash))))"

text \<open>The inner handler \<^verbatim>\<open>except json.JSONDecodeError\<close> logs and goes on to the send.\<close>

definition upstream_frame_verdict :: "pylib \<Rightarrow> int option \<Rightarrow> frame \<Rightarrow> py_error + verdict" where
  "upstream_frame_verdict lib last_session_updated_hash message =
     (case inspect_upstream lib last_session_updated_hash message of
        Inl e \<Rightarrow> if e = JSONDecodeError then Inr (Forward last_session_updated_hash) else Inl e
      | Inr v \<Rightarrow> Inr v)"

text \<open>
  The loop over the messages \<^verbatim>\<open>async for\<close> yields (the end of the list is the
  upstream connection closing). The result is the list of messages handed to
  \<^verbatim>\<open>client_ws.send\<close>.
\<close>

fun forward_azure_to_client :: "pylib \<Rightarrow> (nat \<Rightarrow> bool) \<Rightarrow> nat \<Rightarrow> int option \<Rightarrow> frame list \<Rightarrow> frame list" where
  "forward_azure_to_client lib accepts n last_hash [] = []"
| "forward_azure_to_client lib accepts n last_hash (message # rest) =
     (case upstream_frame_verdict lib last_hash message of
        Inl e \<Rightarrow> []
      | Inr Suppress \<Rightarrow> forward_azure_to_client lib accepts n last_hash rest
      | Inr (Forward h) \<Rightarrow>
          message # (if accepts n then forward_azure_to_client lib accepts (Suc n) h rest else []))"

section \<open>The initial session configuration\<close>

type_synonym config = "string \<rightharpoonup> string"

definition SESSION_UPDATE_TYPE :: string where "SESSION_UPDATE_TYPE = ''session.update''"
definition DEFAULT_MODALITIES :: json where "DEFAULT_MODALITIES = JList [JStr ''text'', JStr ''audio'']"
definition DEFAULT_TURN_DETECTION_TYPE :: string where "DEFAULT_TURN_DETECTION_TYPE = ''azure_semantic_vad''"
definition DEFAULT_NOISE_REDUCTION_TYPE :: string where "DEFAULT_NOISE_REDUCTION_TYPE = ''azure_deep_noise_suppression''"
definition DEFAULT_ECHO_CANCELLATION_TYPE :: string where "DEFAULT_ECHO_CANCELLATION_TYPE = ''server_echo_cancellation''"
definition DEFAULT_AVATAR_CHARACTER :: string where "DEFAULT_AVATAR_CHARACTER = ''lisa''"
definition DEFAULT_AVATAR_STYLE :: string where "DEFAULT_AVATAR_STYLE = ''casual-sitting''"

text \<open>\<^verbatim>\<open>config[key]\<close> raises \<^verbatim>\<open>KeyError\<close> on a missing key; \<^verbatim>\<open>config.get(key)\<close> does not.\<close>

definition config_item :: "config \<Rightarrow> string \<Rightarrow> py_error + string" where
  "config_item cfg k = (case cfg k of Some v \<Rightarrow> Inr v | None \<Rightarrow> Inl KeyError)"

definition dict_item :: "pydict \<Rightarrow> string \<Rightarrow> py_error + json" where
  "dict_item d k = (case map_of d k of Some v \<Rightarrow> Inr v | None \<Rightarrow> Inl KeyError)"

definition dict_get :: "pydict \<Rightarrow> string \<Rightarrow> json \<Rightarrow> json" where
  "dict_get d k dflt = (case map_of d k of Some v \<Rightarrow> v | None \<Rightarrow> dflt)"

definition build_session_config :: "config \<Rightarrow> py_error + json" where
  "build_session_config cfg =
     ebind (config_item cfg ''azure_voice_name'') (\<lambda>voice_name.
     ebind (config_item cfg ''azure_voice_type'') (\<lambda>voice_type.
       Inr (JDict
         [(''type'', JStr SESSION_UPDATE_TYPE),
          (''session'', JDict
            [(''modalities'', DEFAULT_MODALITIES),
             (''turn_detection'', JDict [(''type'', JStr DEFAULT_TURN_DETECTION_TYPE)]),
             (''input_audio_noise_reduction'', JDict [(''type'', JStr DEFAULT_NOISE_REDUCTION_TYPE)]),
             (''input_audio_echo_cancellation'', JDict [(''type'', JStr DEFAULT_ECHO_CANCELLATION_TYPE)]),
             (''avatar'', JDict
                [(''character'', JStr DEFAULT_AVATAR_CHARACTER),
                 (''style'', JStr DEFAULT_AVATAR_STYLE)]),
             (''voice'', JDict [(''name'', JStr voice_name), (''type'', JStr voice_type)])])])))"

text \<open>
  \<^verbatim>\<open>_add_local_agent_config\<close>. The default of \<^verbatim>\<open>agent_config.get("model", ...)\<close> is
  \<^verbatim>\<open>config["model_deployment_name"]\<close>, evaluated before the call whether or not the
  agent has a model.
\<close>

definition add_local_agent_config :: "config \<Rightarrow> json \<Rightarrow> pydict \<Rightarrow> py_error + json" where
  "add_local_agent_config cfg config_message agent_config =
     ebind (py_getitem config_message ''session'') (\<lambda>session.
     ebind (config_item cfg ''model_deployment_name'') (\<lambda>default_model.
     ebind (dict_item agent_config ''instructions'') (\<lambda>instructions.
     ebind (dict_item agent_config ''temperature'') (\<lambda>temperature.
     ebind (dict_item agent_config ''max_tokens'') (\<lambda>max_tokens.
       Inr (py_setitem config_message ''session''
         (py_setitem
           (py_setitem
             (py_setitem
               (py_setitem session ''model'' (dict_get agent_config ''model'' (JStr default_model)))
               ''instructions'' instructions)
             ''temperature'' temperature)
           ''max_response_output_tokens'' max_tokens)))))))"

text \<open>\<^verbatim>\<open>if agent_config\<close>: neither \<^verbatim>\<open>None\<close> nor the empty dict.\<close>

definition agent_present :: "pydict option \<Rightarrow> bool" where
  "agent_present agent_config = (case agent_config of None \<Rightarrow> False | Some ac \<Rightarrow> ac \<noteq> [])"

definition agent_flag :: "pydict option \<Rightarrow> json \<Rightarrow> bool" where
  "agent_flag agent_config dflt =
     (case agent_config of None \<Rightarrow> False | Some ac \<Rightarrow> truthy (dict_get ac ''is_azure_agent'' dflt))"

text \<open>
  The message that \<^verbatim>\<open>_send_initial_config\<close> serialises and sends, or the exception
  raised while building it.
\<close>

definition initial_config_message :: "config \<Rightarrow> pydict option \<Rightarrow> py_error + json" where
  "initial_config_message cfg agent_config =
     ebind (build_session_config cfg) (\<lambda>config_message.
       if agent_present agent_config \<and> \<not> agent_flag agent_config JNull then
         add_local_agent_config cfg config_message (the agent_config)
       else Inr config_message)"

text \<open>A field of the \<^verbatim>\<open>session\<close> object of a message.\<close>

definition session_field :: "json \<Rightarrow> string \<Rightarrow> json option" where
  "session_field msg k =
     (case msg of
        JDict kvs \<Rightarrow> (case map_of kvs ''session'' of Some (JDict s) \<Rightarrow> map_of s k | _ \<Rightarrow> None)
      | _ \<Rightarrow> None)"

section \<open>The upstream URL\<close>

definition AZURE_VOICE_API_VERSION :: string where "AZURE_VOICE_API_VERSION = ''2025-05-01-preview''"
definition AZURE_COGNITIVE_SERVICES_DOMAIN :: string where "AZURE_COGNITIVE_SERVICES_DOMAIN = ''cognitiveservices.azure.com''"
definition VOICE_AGENT_ENDPOINT :: string where "VOICE_AGENT_ENDPOINT = ''voice-agent/realtime''"

text \<open>What an f-string writes for a value, for \<^verbatim>\<open>None\<close> and for a string.\<close>

definition fmt :: "pylib \<Rightarrow> json \<Rightarrow> string" where
  "fmt lib v = (case v of JStr s \<Rightarrow> s | _ \<Rightarrow> repr lib v)"

definition fmt_opt :: "pylib \<Rightarrow> json option \<Rightarrow> string" where
  "fmt_opt lib v = (case v of None \<Rightarrow> ''None'' | Some x \<Rightarrow> fmt lib x)"

definition fmt_str_opt :: "string option \<Rightarrow> string" where
  "fmt_str_opt v = (case v of None \<Rightarrow> ''None'' | Some s \<Rightarrow> s)"

text \<open>\<open>client_request_id\<close> is the value \<^verbatim>\<open>uuid.uuid4()\<close> returns in this call.\<close>

definition build_base_azure_url :: "config \<Rightarrow> string \<Rightarrow> py_error + string" where
  "build_base_azure_url cfg client_request_id =
     ebind (config_item cfg ''azure_ai_resource_name'') (\<lambda>resource_name.
       Inr (''wss://'' @ resource_name @ ''.'' @ AZURE_COGNITIVE_SERVICES_DOMAIN @ ''/'' @
            VOICE_AGENT_ENDPOINT @ ''?api-version='' @ AZURE_VOICE_API_VERSION @
            ''&x-ms-client-request-id='' @ client_request_id))"

definition build_agent_specific_url ::
  "pylib \<Rightarrow> config \<Rightarrow> string \<Rightarrow> json option \<Rightarrow> pydict \<Rightarrow> py_error + string" where
  "build_agent_specific_url lib cfg base_url agent_id agent_config =
     (let project_name = cfg ''azure_ai_project_name'' in
      if truthy (dict_get agent_config ''is_azure_agent'' JNull) then
        (let project_endpoint = (case cfg ''project_endpoint'' of None \<Rightarrow> [] | Some e \<Rightarrow> e);
             url = base_url @ ''&agent-id='' @ fmt_opt lib agent_id @
                   ''&agent-project-name='' @ fmt_str_opt project_name
         in Inr (if project_endpoint \<noteq> [] then url @ ''&connection-string='' @ project_endpoint
                 else url))
      else
        ebind (config_item cfg ''model_deployment_name'') (\<lambda>default_model.
          Inr (base_url @ ''&model='' @
               fmt lib (dict_get agent_config ''model'' (JStr default_model)))))"

definition build_azure_url ::
  "pylib \<Rightarrow> config \<Rightarrow> string \<Rightarrow> json option \<Rightarrow> pydict option \<Rightarrow> py_error + string" where
  "build_azure_url lib cfg client_request_id agent_id agent_config =
     ebind (build_base_azure_url cfg client_request_id) (\<lambda>base_url.
       if agent_present agent_config then
         build_agent_specific_url lib cfg base_url agent_id (the agent_config)
       else
         ebind (config_item cfg ''agent_id'') (\<lambda>fixed_agent_id.
           if fixed_agent_id \<noteq> [] then Inr (base_url @ ''&agent-id='' @ fixed_agent_id)
           else
             ebind (config_item cfg ''model_deployment_name'') (\<lambda>model_name.
               Inr (base_url @ ''&model='' @ model_name))))"

section \<open>Connecting to the upstream service\<close>

text \<open>
  What \<^verbatim>\<open>azure_ws.send\<close> of the initial configuration does: it returns, or it raises
  \<^verbatim>\<open>ConnectionClosed\<close> (its \<^verbatim>\<open>WebSocketException\<close>, raised by the library only once
  the connection is closed), or it raises an exception that is no
  \<^verbatim>\<open>WebSocketException\<close> and leaves the connection as it was.
\<close>

datatype send_outcome = SendOk | SendConnectionClosed | SendOtherError

text \<open>
  Everything outside the handler that one connection meets: the process configuration,
  the agent registry (\<^verbatim>\<open>agent_manager.get_agent\<close>, which may raise, and the exception
  \<^verbatim>\<open>agent_manager.create_or_get_agent\<close> raises if any), the credential provider
  (\<^verbatim>\<open>credential.get_token(scope).token\<close>, \<open>None\<close> when it raises), the value of
  \<^verbatim>\<open>uuid.uuid4()\<close>, the exception \<^verbatim>\<open>websockets.connect\<close> raises if any, the
  outcome of the first \<^verbatim>\<open>azure_ws.send\<close>, and the client's first \<^verbatim>\<open>receive\<close>.
\<close>

record env =
  config :: config
  get_agent :: "json \<Rightarrow> py_error + pydict option"
  ensure_agent_raises :: "py_error option"
  get_token :: "string \<rightharpoonup> string"
  uuid4 :: string
  connect_raises :: "py_error option"
  send_result :: send_outcome
  first_receive :: "rat \<Rightarrow> recv_event"

text \<open>
  What happens at the boundary of the handler, in order. \<open>TokenRequested\<close> is a call of
  \<^verbatim>\<open>credential.get_token\<close> with its scope, \<open>ConnectAttempt\<close> the call of
  \<^verbatim>\<open>websockets.connect\<close> with its URL and headers, \<open>UpstreamOpened\<close> its return,
  \<open>UpstreamSent\<close> a completed \<^verbatim>\<open>azure_ws.send\<close>, \<open>UpstreamLost\<close> the transport
  closing the connection (which \<^verbatim>\<open>send\<close> reports by \<^verbatim>\<open>ConnectionClosed\<close>),
  \<open>UpstreamClosed\<close> a call of \<^verbatim>\<open>azure_ws.close\<close>, \<open>ClientSent\<close> a message the
  handler itself hands to \<^verbatim>\<open>_send_message\<close>, \<open>EnsureAgent\<close> the call of
  \<^verbatim>\<open>agent_manager.create_or_get_agent\<close>, and \<open>Relay\<close> the forwarding stage.
\<close>

datatype event =
    TokenRequested string
  | ConnectAttempt string "(string \<times> string) list"
  | UpstreamOpened
  | UpstreamSent string
  | UpstreamLost
  | UpstreamClosed
  | ClientSent json
  | EnsureAgent string json
  | Relay

text \<open>
  Whether the upstream connection is open after a run of events: it is open from
  \<open>UpstreamOpened\<close> until the transport closes it or \<^verbatim>\<open>close\<close> is called.
\<close>

fun connection_after :: "bool \<Rightarrow> event list \<Rightarrow> bool" where
  "connection_after opened [] = opened"
| "connection_after opened (ev # evs) =
     connection_after
       (case ev of
          UpstreamOpened \<Rightarrow> True
        | UpstreamLost \<Rightarrow> False
        | UpstreamClosed \<Rightarrow> False
        | _ \<Rightarrow> opened)
       evs"

definition upstream_open :: "event list \<Rightarrow> bool" where
  "upstream_open evs = connection_after False evs"

text \<open>
  \<^verbatim>\<open>_connect_to_azure\<close> returns \<^verbatim>\<open>None\<close> on every failure; each such return
  logs a message of its own, and the model keeps which one it was.
\<close>

datatype failure =
    MissingConfiguration
  | MissingProjectName
  | TokenFailure
  | MissingApiKey
  | HandshakeRejected nat
  | WebSocketFailure
  | GenericFailure

definition str_truthy :: "string option \<Rightarrow> bool" where
  "str_truthy v = (case v of None \<Rightarrow> False | Some s \<Rightarrow> s \<noteq> [])"

definition PRIMARY_SCOPE :: string where "PRIMARY_SCOPE = ''https://ai.azure.com/.default''"
definition FALLBACK_SCOPE :: string where "FALLBACK_SCOPE = ''https://cognitiveservices.azure.com/.default''"

text \<open>
  The credential part of \<^verbatim>\<open>_connect_to_azure\<close> (the \<^verbatim>\<open>if is_azure_agent\<close>
  statement): the token requests made, and the headers for the connection or the failure
  it returns with.
\<close>

definition authenticate ::
  "env \<Rightarrow> pydict option \<Rightarrow> event list \<times> (failure + (string \<times> string) list)" where
  "authenticate e agent_config =
     (if agent_present agent_config \<and> agent_flag agent_config (JBool False) then
        (if \<not> str_truthy (config e ''azure_ai_project_name'') then ([], Inl MissingProjectName)
         else
           (case get_token e PRIMARY_SCOPE of
              Some token \<Rightarrow>
                ([TokenRequested PRIMARY_SCOPE], Inr [(''Authorization'', ''Bearer '' @ token)])
            | None \<Rightarrow>
                (case get_token e FALLBACK_SCOPE of
                   Some token \<Rightarrow>
                     ([TokenRequested PRIMARY_SCOPE, TokenRequested FALLBACK_SCOPE],
                      Inr [(''Authorization'', ''Bearer '' @ token)])
                 | None \<Rightarrow>
                     ([TokenRequested PRIMARY_SCOPE, TokenRequested FALLBACK_SCOPE],
                      Inl TokenFailure))))
      else
        (if \<not> str_truthy (config e ''azure_openai_api_key'') then ([], Inl MissingApiKey)
         else ([], Inr [(''api-key'', the (config e ''azure_openai_api_key''))])))"

text \<open>
  The three handlers of \<^verbatim>\<open>_connect_to_azure\<close>, tried in the order of the source;
  \<open>opened\<close> says whether \<^verbatim>\<open>azure_ws\<close> is set when the exception arrives. Only the
  last handler calls \<^verbatim>\<open>close\<close>. \<open>WebSocketException\<close> stands for the class and
  its subclasses other than \<open>InvalidStatusCode\<close>.
\<close>

definition connect_handlers :: "bool \<Rightarrow> py_error \<Rightarrow> event list \<times> (failure + unit)" where
  "connect_handlers opened e =
     (case e of
        InvalidStatusCode code \<Rightarrow> ([], Inl (HandshakeRejected code))
      | WebSocketException \<Rightarrow> ([], Inl WebSocketFailure)
      | _ \<Rightarrow> (if opened then [UpstreamClosed] else [], Inl GenericFailure))"

text \<open>\<^verbatim>\<open>self.agent_manager.get_agent(agent_id) if agent_id else None\<close>.\<close>

definition resolve_agent :: "env \<Rightarrow> json option \<Rightarrow> py_error + pydict option" where
  "resolve_agent e agent_id =
     (case agent_id of
        None \<Rightarrow> Inr None
      | Some a \<Rightarrow> if truthy a then get_agent e a else Inr None)"

text \<open>
  The steps of \<^verbatim>\<open>_connect_to_azure\<close> from \<^verbatim>\<open>websockets.connect\<close> on, given the
  URL and the headers: the events, and the connection or the failure.
\<close>

definition open_and_configure ::
  "pylib \<Rightarrow> env \<Rightarrow> pydict option \<Rightarrow> string \<Rightarrow> (string \<times> string) list \<Rightarrow>
   event list \<times> (failure + unit)" where
  "open_and_configure lib e agent_config azure_url headers =
     (case connect_raises e of
        Some ex \<Rightarrow>
          (ConnectAttempt azure_url headers # fst (connect_handlers False ex),
           snd (connect_handlers False ex))
      | None \<Rightarrow>
          (case initial_config_message (config e) agent_config of
             Inl ex \<Rightarrow>
               ([ConnectAttempt azure_url headers, UpstreamOpened] @ fst (connect_handlers True ex),
                snd (connect_handlers True ex))
           | Inr config_message \<Rightarrow>
               (case send_result e of
                  SendOk \<Rightarrow>
                    ([ConnectAttempt azure_url headers, UpstreamOpened,
                      UpstreamSent (dumps lib config_message)],
                     Inr ())
                | SendConnectionClosed \<Rightarrow>
                    ([ConnectAttempt azure_url headers, UpstreamOpened, UpstreamLost] @
                       fst (connect_handlers True WebSocketException),
                     snd (connect_handlers True WebSocketException))
                | SendOtherError \<Rightarrow>
                    ([ConnectAttempt azure_url headers, UpstreamOpened] @
                       fst (connect_handlers True OtherException),
                     snd (connect_handlers True OtherException)))))"

definition connect_to_azure :: "pylib \<Rightarrow> env \<Rightarrow> json option \<Rightarrow> event list \<times> (failure + unit)" where
  "connect_to_azure lib e agent_id =
     (if \<not> str_truthy (config e ''azure_ai_resource_name'') then ([], Inl MissingConfiguration)
      else
        (case resolve_agent e agent_id of
           Inl ex \<Rightarrow> connect_handlers False ex
         | Inr agent_config \<Rightarrow>
             (case snd (authenticate e agent_config) of
                Inl f \<Rightarrow> (fst (authenticate e agent_config), Inl f)
              | Inr headers \<Rightarrow>
                  (case build_azure_url lib (config e) (uuid4 e) agent_id agent_config of
                     Inl ex \<Rightarrow>
                       (fst (authenticate e agent_config) @ fst (connect_handlers False ex),
                        snd (connect_handlers False ex))
                   | Inr azure_url \<Rightarrow>
                       (fst (authenticate e agent_config) @
                          fst (open_and_configure lib e agent_config azure_url headers),
                        snd (open_and_configure lib e agent_config azure_url headers))))))"

section \<open>The connection handler\<close>

definition dummy_scenario :: "config \<Rightarrow> json" where
  "dummy_scenario cfg =
     JDict
       [(''messages'', JList [JDict [(''content'', JStr ''You are a helpful assistant.'')]]),
        (''model'', JStr (case cfg ''model_deployment_name'' of None \<Rightarrow> ''gpt-4o'' | Some m \<Rightarrow> m)),
        (''modelParameters'', JDict [(''temperature'', JFloat (7 / 10)), (''max_tokens'', JInt 2000)])]"

definition error_frame :: "string \<Rightarrow> json" where
  "error_frame error_message =
     JDict [(''type'', JStr ''error''), (''error'', JDict [(''message'', JStr error_message)])]"

definition proxy_connected :: json where
  "proxy_connected =
     JDict [(''type'', JStr ''proxy.connected''), (''message'', JStr ''Connected to Azure Voice API'')]"

text \<open>
  The statements of \<^verbatim>\<open>handle_connection\<close> before its \<^verbatim>\<open>try\<close>: with a fixed agent
  identifier configured, \<^verbatim>\<open>create_or_get_agent\<close> is called (and may raise) and the
  fixed identifier is used; otherwise the client is asked.
\<close>

definition identify_agent :: "pylib \<Rightarrow> env \<Rightarrow> event list \<times> (py_error + json option)" where
  "identify_agent lib e =
     (if str_truthy (config e ''agent_id'') then
        ([EnsureAgent ''predefined'' (dummy_scenario (config e))],
         (case ensure_agent_raises e of
            Some ex \<Rightarrow> Inl ex
          | None \<Rightarrow> Inr (Some (JStr (the (config e ''agent_id''))))))
      else ([], get_agent_id_from_client lib (first_receive e)))"

text \<open>
  \<^verbatim>\<open>handle_connection\<close>: the events in order, and the exception that leaves the
  function if any. An exception before the \<^verbatim>\<open>try\<close> leaves the function. Inside the
  \<^verbatim>\<open>try\<close> no callee raises: \<^verbatim>\<open>_connect_to_azure\<close> and \<^verbatim>\<open>_send_message\<close> catch
  every exception, and the two forwarding loops catch their own. The \<^verbatim>\<open>finally\<close>
  closes \<^verbatim>\<open>azure_ws\<close> when \<^verbatim>\<open>_connect_to_azure\<close> returned a connection.
\<close>

definition handle_connection :: "pylib \<Rightarrow> env \<Rightarrow> event list \<times> py_error option" where
  "handle_connection lib e =
     (case snd (identify_agent lib e) of
        Inl ex \<Rightarrow> (fst (identify_agent lib e), Some ex)
      | Inr current_agent_id \<Rightarrow>
          (case snd (connect_to_azure lib e current_agent_id) of
             Inl f \<Rightarrow>
               (fst (identify_agent lib e) @ fst (connect_to_azure lib e current_agent_id) @
                  [ClientSent (error_frame ''Failed to connect to Azure Voice API'')],
                None)
           | Inr azure_ws \<Rightarrow>
               (fst (identify_agent lib e) @ fst (connect_to_azure lib e current_agent_id) @
                  [ClientSent proxy_connected, Relay, UpstreamClosed],
                None)))"

section \<open>The specification's notions\<close>

text \<open>
  The agent identifier field nested in a frame, in the specification's words: the
  frame parses as a "session update" message, and its session object carries an agent
  identifier.
\<close>

definition nested_agent_id :: "pylib \<Rightarrow> frame \<Rightarrow> json option" where
  "nested_agent_id lib m =
     (case loads lib m of
        Inr (JDict msg) \<Rightarrow>
          (if map_of msg ''type'' = Some (JStr ''session.update'') then
             (case map_of msg ''session'' of
                Some (JDict session) \<Rightarrow> map_of session ''agent_id''
              | _ \<Rightarrow> None)
           else None)
      | _ \<Rightarrow> None)"

text \<open>
  A remote agent is a resolved agent configuration whose \<^verbatim>\<open>is_azure_agent\<close> flag is
  set; a local agent is a resolved one whose flag is not.
\<close>

definition is_remote :: "pydict option \<Rightarrow> bool" where
  "is_remote agent_config = (agent_present agent_config \<and> agent_flag agent_config JNull)"

definition is_local :: "pydict option \<Rightarrow> bool" where
  "is_local agent_config = (agent_present agent_config \<and> \<not> agent_flag agent_config JNull)"

text \<open>The fixed fields of the session configuration, and the absence of the agent's four.\<close>

definition fixed_defaults :: "string \<Rightarrow> string \<Rightarrow> json \<Rightarrow> bool" where
  "fixed_defaults voice_name voice_type msg =
     (session_field msg ''modalities'' = Some (JList [JStr ''text'', JStr ''audio'']) \<and>
      session_field msg ''turn_detection'' = Some (JDict [(''type'', JStr ''azure_semantic_vad'')]) \<and>
      session_field msg ''input_audio_noise_reduction'' =
        Some (JDict [(''type'', JStr ''azure_deep_noise_suppression'')]) \<and>
      session_field msg ''input_audio_echo_cancellation'' =
        Some (JDict [(''type'', JStr ''server_echo_cancellation'')]) \<and>
      session_field msg ''avatar'' =
        Some (JDict [(''character'', JStr ''lisa''), (''style'', JStr ''casual-sitting'')]) \<and>
      session_field msg ''voice'' =
        Some (JDict [(''name'', JStr voice_name), (''type'', JStr voice_type)]))"

definition no_agent_fields :: "json \<Rightarrow> bool" where
  "no_agent_fields msg =
     (session_field msg ''model'' = None \<and> session_field msg ''instructions'' = None \<and>
      session_field msg ''temperature'' = None \<and>
      session_field msg ''max_response_output_tokens'' = None)"

text \<open>The part of the URL that every variant shares.\<close>

definition url_base :: "string \<Rightarrow> string \<Rightarrow> string" where
  "url_base resource_name trace_id =
     ''wss://'' @ resource_name @
     ''.cognitiveservices.azure.com/voice-agent/realtime?api-version=2025-05-01-preview'' @
     ''&x-ms-client-request-id='' @ trace_id"

section \<open>Concrete inputs\<close>

text \<open>
  Library instances and environments for evaluating the handler on concrete inputs: a
  decoder given by a finite table (a frame outside the table is not JSON), a stand-in
  serialiser that writes strings, lists and objects (numbers as a placeholder), and the
  length of a string as its hash.
\<close>

definition loads_table :: "(frame \<times> json) list \<Rightarrow> frame \<Rightarrow> py_error + json" where
  "loads_table tbl f = (case map_of tbl f of Some v \<Rightarrow> Inr v | None \<Rightarrow> Inl JSONDecodeError)"

fun show_json :: "json \<Rightarrow> string" where
  "show_json JNull = ''null''"
| "show_json (JBool b) = (if b then ''true'' else ''false'')"
| "show_json (JInt i) = ''<int>''"
| "show_json (JFloat r) = ''<float>''"
| "show_json (JStr s) = ''<'' @ s @ ''>''"
| "show_json (JList xs) = ''['' @ concat (map (\<lambda>x. show_json x @ '','') xs) @ '']''"
| "show_json (JDict kvs) =
     ''{'' @ concat (map (\<lambda>kv. fst kv @ '':'' @ show_json (snd kv) @ '','') kvs) @ ''}''"

definition lib_table :: "(frame \<times> json) list \<Rightarrow> pylib" where
  "lib_table tbl =
     \<lparr> loads = loads_table tbl, dumps = show_json, dumps_sorted = show_json,
       hash_str = (\<lambda>s. int (length s)), repr = show_json \<rparr>"

definition client_sends :: "frame option \<Rightarrow> rat \<Rightarrow> recv_event" where
  "client_sends m tmo = Arrived m"

definition client_silent :: "rat \<Rightarrow> recv_event" where
  "client_silent tmo = TimedOut"

definition always :: "nat \<Rightarrow> bool" where
  "always n = True"

definition example_config :: config where
  "example_config = map_of
     [(''azure_ai_resource_name'', ''res''), (''agent_id'', []),
      (''model_deployment_name'', ''gpt-4o''),
      (''azure_voice_name'', ''en-US-Ava:DragonHDLatestNeural''),
      (''azure_voice_type'', ''azure-standard''), (''azure_openai_api_key'', ''key''),
      (''azure_ai_project_name'', ''proj'')]"

definition remote_agent :: pydict where
  "remote_agent = [(''is_azure_agent'', JBool True)]"

definition local_agent :: pydict where
  "local_agent =
     [(''is_azure_agent'', JBool False), (''model'', JStr ''m''), (''instructions'', JStr ''i''),
      (''temperature'', JFloat (1 / 2)), (''max_tokens'', JInt 100)]"

definition local_agent_without_model :: pydict where
  "local_agent_without_model =
     [(''instructions'', JStr ''i''), (''temperature'', JFloat (1 / 2)), (''max_tokens'', JInt 100)]"

definition agent_table :: "(json \<times> pydict) list \<Rightarrow> json \<Rightarrow> py_error + pydict option" where
  "agent_table tbl agent_id = Inr (map_of tbl agent_id)"

text \<open>
  An environment with a static key and no agent, in which the upstream connection opens
  and the first send on it has the given outcome.
\<close>

definition env_static_key :: "send_outcome \<Rightarrow> env" where
  "env_static_key outcome =
     \<lparr> config = example_config, get_agent = agent_table [], ensure_agent_raises = None,
       get_token = map_of [], uuid4 = ''u'', connect_raises = None, send_result = outcome,
       first_receive = client_silent \<rparr>"

text \<open>An environment with a remote agent \<open>a1\<close> and the given tokens by scope.\<close>

definition env_remote :: "(string \<times> string) list \<Rightarrow> env" where
  "env_remote tokens =
     \<lparr> config = example_config, get_agent = agent_table [(JStr ''a1'', remote_agent)],
       ensure_agent_raises = None, get_token = map_of tokens, uuid4 = ''u'',
       connect_raises = None, send_result = SendOk, first_receive = client_silent \<rparr>"

text \<open>
  An environment with the fixed agent identifier \<open>fixed\<close> configured, in which
  \<^verbatim>\<open>create_or_get_agent\<close> raises.
\<close>

definition env_fixed_agent_fails :: env where
  "env_fixed_agent_fails =
     \<lparr> config = example_config(''agent_id'' \<mapsto> ''fixed''), get_agent = agent_table [],
       ensure_agent_raises = Some OtherException, get_token = map_of [], uuid4 = ''u'',
       connect_raises = None, send_result = SendOk, first_receive = client_silent \<rparr>"

section \<open>Shared lemmas\<close>

lemmas session_consts = SESSION_UPDATE_TYPE_def DEFAULT_MODALITIES_def DEFAULT_TURN_DETECTION_TYPE_def
  DEFAULT_NOISE_REDUCTION_TYPE_def DEFAULT_ECHO_CANCELLATION_TYPE_def DEFAULT_AVATAR_CHARACTER_def
  DEFAULT_AVATAR_STYLE_def

lemmas url_consts = AZURE_VOICE_API_VERSION_def AZURE_COGNITIVE_SERVICES_DOMAIN_def
  VOICE_AGENT_ENDPOINT_def

text \<open>The first-frame parser, by cases on what the decoder yields.\<close>

lemma parse_first_message_cases:
  "parse_first_message lib m =
     (case loads lib m of
        Inl e \<Rightarrow> Inl e
      | Inr (JDict msg) \<Rightarrow>
          (if map_of msg ''type'' = Some (JStr ''session.update'') then
             (case map_of msg ''session'' of
                None \<Rightarrow> Inr None
              | Some (JDict session) \<Rightarrow>
                  (case map_of session ''agent_id'' of
                     None \<Rightarrow> Inr None
                   | Some a \<Rightarrow> if truthy a then Inr (Some a) else Inr None)
              | Some _ \<Rightarrow> Inl AttributeError)
           else Inr None)
      | Inr _ \<Rightarrow> Inl AttributeError)"
  unfolding parse_first_message_def
  by (auto split: sum.splits json.splits option.splits)

text \<open>The stripping step, by cases on what the decoder yields.\<close>

lemma strip_agent_id_cases:
  "strip_agent_id lib m =
    (case loads lib m of
       Inl e \<Rightarrow> Inl e
     | Inr (JDict msg) \<Rightarrow>
        (if map_of msg ''type'' = Some (JStr ''session.update'') then
          (case map_of msg ''session'' of
             None \<Rightarrow> Inr m
           | Some session \<Rightarrow>
              (case py_contains session ''agent_id'' of
                 Inl e \<Rightarrow> Inl e
               | Inr has \<Rightarrow>
                   if has then
                     (case py_delitem session ''agent_id'' of
                        Inl e \<Rightarrow> Inl e
                      | Inr stripped \<Rightarrow>
                          Inr (Text (dumps lib (JDict (AList.update ''session'' stripped msg)))))
                   else Inr m))
         else Inr m)
     | Inr _ \<Rightarrow> Inl AttributeError)"
  unfolding strip_agent_id_def
  by (auto split: sum.splits json.splits option.splits)

lemma agent_flag_default: "agent_flag ac (JBool False) = agent_flag ac JNull"
  by (simp add: agent_flag_def dict_get_def split: option.splits)

lemma build_session_config_value:
  assumes "cfg ''azure_voice_name'' = Some vn" and "cfg ''azure_voice_type'' = Some vt"
  shows "build_session_config cfg =
     Inr (JDict [(''type'', JStr ''session.update''),
          (''session'', JDict
            [(''modalities'', JList [JStr ''text'', JStr ''audio'']),
             (''turn_detection'', JDict [(''type'', JStr ''azure_semantic_vad'')]),
             (''input_audio_noise_reduction'', JDict [(''type'', JStr ''azure_deep_noise_suppression'')]),
             (''input_audio_echo_cancellation'', JDict [(''type'', JStr ''server_echo_cancellation'')]),
             (''avatar'', JDict [(''character'', JStr ''lisa''), (''style'', JStr ''casual-sitting'')]),
             (''voice'', JDict [(''name'', JStr vn), (''type'', JStr vt)])])])"
  using assms
  by (simp add: build_session_config_def config_item_def session_consts)

lemma build_session_config_defaults:
  assumes "cfg ''azure_voice_name'' = Some vn" and "cfg ''azure_voice_type'' = Some vt"
  shows "\<exists>msg. build_session_config cfg = Inr msg \<and> fixed_defaults vn vt msg \<and> no_agent_fields msg"
  unfolding build_session_config_value[OF assms]
  by (simp add: fixed_defaults_def no_agent_fields_def session_field_def)

lemma add_local_agent_config_fields:
  assumes "cfg ''azure_voice_name'' = Some vn" and "cfg ''azure_voice_type'' = Some vt"
    and "cfg ''model_deployment_name'' = Some dm"
    and "map_of ac ''instructions'' = Some i" and "map_of ac ''temperature'' = Some t"
    and "map_of ac ''max_tokens'' = Some n"
    and "build_session_config cfg = Inr m0"
  shows "\<exists>msg. add_local_agent_config cfg m0 ac = Inr msg \<and> fixed_defaults vn vt msg \<and>
          session_field msg ''model'' = Some (dict_get ac ''model'' (JStr dm)) \<and>
          session_field msg ''instructions'' = Some i \<and>
          session_field msg ''temperature'' = Some t \<and>
          session_field msg ''max_response_output_tokens'' = Some n"
  using assms(3-7) unfolding build_session_config_value[OF assms(1,2)]
  by (auto simp add: add_local_agent_config_def config_item_def dict_item_def fixed_defaults_def
      session_field_def update_conv')

lemma build_base_azure_url_value:
  "cfg ''azure_ai_resource_name'' = Some rn \<Longrightarrow>
   build_base_azure_url cfg rid = Inr (url_base rn rid)"
  by (simp add: build_base_azure_url_def config_item_def url_base_def url_consts)

section \<open>Claims\<close>

subsection \<open>Agent identification\<close>

text \<open>
  C1, as amended. Identification never raises. It returns the agent identifier exactly
  when the client's first frame arrives within the bound of 10, is not empty, parses as a
  "session update" message carrying a nested agent identifier, and that identifier is
  truthy (for a string: not empty). In every other case (no frame within the bound, an
  exception while receiving, an empty frame, a parse failure, any other message shape, a
  falsy identifier) it returns none.
\<close>

theorem get_agent_id_from_client_result:
  "get_agent_id_from_client lib client =
     Inr (case client 10 of
            Arrived (Some m) \<Rightarrow>
              (if frame_truthy m then
                 (case nested_agent_id lib m of
                    Some a \<Rightarrow> if truthy a then Some a else None
                  | None \<Rightarrow> None)
               else None)
          | _ \<Rightarrow> None)"
  unfolding get_agent_id_from_client_def get_agent_id_body_def wait_for_def nested_agent_id_def
    timeout_seconds_def
  by (auto simp: parse_first_message_cases
      split: sum.splits json.splits option.splits recv_event.splits)

text \<open>
  The specification's example: the first frame
  \<^verbatim>\<open>{"type":"session.update","session":{"agent_id":"X"}}\<close> yields \<^verbatim>\<open>"X"\<close>.
\<close>

theorem get_agent_id_from_client_result_witness:
  \<open>get_agent_id_from_client
     (lib_table [(Text ''{"type":"session.update","session":{"agent_id":"X"}}'',
        JDict [(''type'', JStr ''session.update''), (''session'', JDict [(''agent_id'', JStr ''X'')])])])
     (client_sends (Some (Text ''{"type":"session.update","session":{"agent_id":"X"}}'')))
   = Inr (Some (JStr ''X''))\<close>
  using get_agent_id_from_client_result
    [of \<open>lib_table [(Text ''{"type":"session.update","session":{"agent_id":"X"}}'',
        JDict [(''type'', JStr ''session.update''), (''session'', JDict [(''agent_id'', JStr ''X'')])])]\<close>
        \<open>client_sends (Some (Text ''{"type":"session.update","session":{"agent_id":"X"}}''))\<close>]
  by (simp add: client_sends_def nested_agent_id_def lib_table_def loads_table_def)

text \<open>
  C1 as stated fails: the first frame
  \<^verbatim>\<open>{"type":"session.update","session":{"agent_id":""}}\<close> arrives in time and parses
  as a "session update" message carrying a nested agent identifier (the empty string),
  and identification returns none.
\<close>

theorem get_agent_id_from_client_empty_identifier:
  \<open>nested_agent_id
     (lib_table [(Text ''{"type":"session.update","session":{"agent_id":""}}'',
        JDict [(''type'', JStr ''session.update''), (''session'', JDict [(''agent_id'', JStr [])])])])
     (Text ''{"type":"session.update","session":{"agent_id":""}}'') = Some (JStr []) \<and>
   get_agent_id_from_client
     (lib_table [(Text ''{"type":"session.update","session":{"agent_id":""}}'',
        JDict [(''type'', JStr ''session.update''), (''session'', JDict [(''agent_id'', JStr [])])])])
     (client_sends (Some (Text ''{"type":"session.update","session":{"agent_id":""}}'')))
   = Inr None\<close>
  by (simp add: get_agent_id_from_client_def get_agent_id_body_def wait_for_def
      parse_first_message_def client_sends_def nested_agent_id_def lib_table_def loads_table_def)

text \<open>
  C9. When the first frame parses as a "session.update" message whose session object
  holds an \<^verbatim>\<open>agent_id\<close> with a falsy value (the empty string, \<^verbatim>\<open>null\<close>, zero,
  \<^verbatim>\<open>false\<close>, an empty list or object), identification returns none and not that value.
\<close>

theorem falsy_agent_id_yields_none:
  assumes "client timeout_seconds = Arrived (Some m)"
    and "loads lib m = Inr (JDict msg)"
    and "map_of msg ''type'' = Some (JStr ''session.update'')"
    and "map_of msg ''session'' = Some (JDict session)"
    and "map_of session ''agent_id'' = Some a"
    and "\<not> truthy a"
  shows "get_agent_id_from_client lib client = Inr None"
  using assms
  by (simp add: get_agent_id_from_client_def get_agent_id_body_def wait_for_def
      parse_first_message_cases)

theorem falsy_agent_id_yields_none_witness:
  \<open>get_agent_id_from_client
     (lib_table [(Text ''{"type":"session.update","session":{"agent_id":null}}'',
        JDict [(''type'', JStr ''session.update''), (''session'', JDict [(''agent_id'', JNull)])])])
     (client_sends (Some (Text ''{"type":"session.update","session":{"agent_id":null}}'')))
   = Inr None\<close>
  by (rule falsy_agent_id_yields_none
        [where m = \<open>Text ''{"type":"session.update","session":{"agent_id":null}}''\<close>
           and msg = "[(''type'', JStr ''session.update''), (''session'', JDict [(''agent_id'', JNull)])]"
           and session = "[(''agent_id'', JNull)]" and a = JNull])
     (simp_all add: client_sends_def lib_table_def loads_table_def)

subsection \<open>The client-to-upstream loop\<close>

text \<open>
  A "session.update" frame whose session object holds an \<^verbatim>\<open>agent_id\<close> is forwarded
  re-serialised with exactly that field removed: the top-level keys and their order are
  kept, every top-level field but \<^verbatim>\<open>session\<close> is unchanged, and every field of the
  session but \<^verbatim>\<open>agent_id\<close> is unchanged.
\<close>

theorem session_update_agent_id_stripped:
  assumes "loads lib m = Inr (JDict msg)"
    and "map_of msg ''type'' = Some (JStr ''session.update'')"
    and "map_of msg ''session'' = Some (JDict session)"
    and "map_of session ''agent_id'' = Some a"
  shows "\<exists>msg' session'.
           client_frame_to_forward lib m = Inr (Text (dumps lib (JDict msg'))) \<and>
           map fst msg' = map fst msg \<and>
           map_of msg' ''session'' = Some (JDict session') \<and>
           (\<forall>k. k \<noteq> ''session'' \<longrightarrow> map_of msg' k = map_of msg k) \<and>
           map_of session' ''agent_id'' = None \<and>
           (\<forall>k. k \<noteq> ''agent_id'' \<longrightarrow> map_of session' k = map_of session k)"
proof -
  let ?session' = "AList.delete ''agent_id'' session"
  let ?msg' = "AList.update ''session'' (JDict ?session') msg"
  have forwarded: "client_frame_to_forward lib m = Inr (Text (dumps lib (JDict ?msg')))"
    using assms by (simp add: client_frame_to_forward_def strip_agent_id_cases)
  have "''session'' \<in> fst ` set msg"
    using assms(3) by (metis map_of_eq_None_iff option.distinct(1))
  then have keys: "map fst ?msg' = map fst msg"
    by (simp add: update_keys)
  have fields: "map_of ?msg' ''session'' = Some (JDict ?session')"
    "\<forall>k. k \<noteq> ''session'' \<longrightarrow> map_of ?msg' k = map_of msg k"
    by (simp_all add: update_conv')
  have session: "map_of ?session' ''agent_id'' = None"
    "\<forall>k. k \<noteq> ''agent_id'' \<longrightarrow> map_of ?session' k = map_of session k"
    by (simp_all add: delete_conv')
  from forwarded keys fields session show ?thesis by blast
qed

theorem session_update_agent_id_stripped_witness:
  \<open>client_frame_to_forward
     (lib_table [(Text ''{"type":"session.update","session":{"agent_id":"X","voice":"v"}}'',
        JDict [(''type'', JStr ''session.update''),
               (''session'', JDict [(''agent_id'', JStr ''X''), (''voice'', JStr ''v'')])])])
     (Text ''{"type":"session.update","session":{"agent_id":"X","voice":"v"}}'')
   = Inr (Text ''{type:<session.update>,session:{voice:<v>,},}'')\<close>
  using session_update_agent_id_stripped
    [of \<open>lib_table [(Text ''{"type":"session.update","session":{"agent_id":"X","voice":"v"}}'',
        JDict [(''type'', JStr ''session.update''),
               (''session'', JDict [(''agent_id'', JStr ''X''), (''voice'', JStr ''v'')])])]\<close>
        \<open>Text ''{"type":"session.update","session":{"agent_id":"X","voice":"v"}}''\<close>
        "[(''type'', JStr ''session.update''),
          (''session'', JDict [(''agent_id'', JStr ''X''), (''voice'', JStr ''v'')])]"
        "[(''agent_id'', JStr ''X''), (''voice'', JStr ''v'')]" "JStr ''X''"]
  by (simp add: client_frame_to_forward_def strip_agent_id_def lib_table_def loads_table_def)

text \<open>
  A frame on which the decoder raises \<^verbatim>\<open>JSONDecodeError\<close> (it is not JSON), or that
  parses as a JSON object that is no "session.update",
  has no \<^verbatim>\<open>session\<close>, or has a session object without an \<^verbatim>\<open>agent_id\<close>, is
  forwarded as the very message that was received, not re-serialised.
\<close>

theorem unmatched_frame_forwarded_unchanged:
  "(loads lib m = Inl JSONDecodeError \<longrightarrow> client_frame_to_forward lib m = Inr m) \<and>
   (\<forall>msg. loads lib m = Inr (JDict msg) \<and> map_of msg ''type'' \<noteq> Some (JStr ''session.update'') \<longrightarrow>
      client_frame_to_forward lib m = Inr m) \<and>
   (\<forall>msg. loads lib m = Inr (JDict msg) \<and> map_of msg ''session'' = None \<longrightarrow>
      client_frame_to_forward lib m = Inr m) \<and>
   (\<forall>msg session. loads lib m = Inr (JDict msg) \<and> map_of msg ''session'' = Some (JDict session) \<and>
      map_of session ''agent_id'' = None \<longrightarrow>
      client_frame_to_forward lib m = Inr m)"
  by (auto simp: client_frame_to_forward_def strip_agent_id_cases)

theorem unmatched_frame_forwarded_unchanged_witness:
  \<open>client_frame_to_forward (lib_table []) (Binary ''pcm'') = Inr (Binary ''pcm'') \<and>
   client_frame_to_forward
     (lib_table [(Text ''{"type":"input_audio_buffer.append","audio":"AAAA"}'',
        JDict [(''type'', JStr ''input_audio_buffer.append''), (''audio'', JStr ''AAAA'')])])
     (Text ''{"type":"input_audio_buffer.append","audio":"AAAA"}'')
   = Inr (Text ''{"type":"input_audio_buffer.append","audio":"AAAA"}'')\<close>
  using unmatched_frame_forwarded_unchanged [of \<open>lib_table []\<close> \<open>Binary ''pcm''\<close>]
    unmatched_frame_forwarded_unchanged
      [of \<open>lib_table [(Text ''{"type":"input_audio_buffer.append","audio":"AAAA"}'',
        JDict [(''type'', JStr ''input_audio_buffer.append''), (''audio'', JStr ''AAAA'')])]\<close>
          \<open>Text ''{"type":"input_audio_buffer.append","audio":"AAAA"}''\<close>]
  by (simp add: lib_table_def loads_table_def)

text \<open>
  C3 fails on the code. The client frame \<^verbatim>\<open>{"type":"session.update","session":null}\<close>
  parses and does not have the shape that is stripped, so C3 has it forwarded unmodified.
  The test \<^verbatim>\<open>"agent_id" in None\<close> raises \<^verbatim>\<open>TypeError\<close>, which the inner handler
  (\<^verbatim>\<open>JSONDecodeError\<close>, \<^verbatim>\<open>KeyError\<close>) does not catch: nothing is forwarded and the
  loop ends.
\<close>

theorem client_loop_ends_on_null_session:
  \<open>client_frame_to_forward
     (lib_table [(Text ''{"type":"session.update","session":null}'',
        JDict [(''type'', JStr ''session.update''), (''session'', JNull)])])
     (Text ''{"type":"session.update","session":null}'') = Inl TypeError \<and>
   forward_client_to_azure
     (lib_table [(Text ''{"type":"session.update","session":null}'',
        JDict [(''type'', JStr ''session.update''), (''session'', JNull)])])
     always 0
     [Some (Text ''{"type":"session.update","session":null}''), Some (Binary ''pcm'')] = []\<close>
  by (simp add: client_frame_to_forward_def strip_agent_id_def lib_table_def loads_table_def)

text \<open>
  C10 fails on the code. The client frame \<^verbatim>\<open>[]\<close> parses as JSON and is no
  "session.update", so C10 has it forwarded byte for byte. \<^verbatim>\<open>msg_data.get\<close> on a list
  raises \<^verbatim>\<open>AttributeError\<close>, which the inner handler does not catch: nothing is
  forwarded, and the frames after it are never read.
\<close>

theorem client_loop_ends_on_json_array:
  \<open>client_frame_to_forward (lib_table [(Text ''[]'', JList [])]) (Text ''[]'') = Inl AttributeError \<and>
   forward_client_to_azure (lib_table [(Text ''[]'', JList [])]) always 0
     [Some (Text ''[]''), Some (Binary ''pcm'')] = []\<close>
  by (simp add: client_frame_to_forward_def strip_agent_id_def lib_table_def loads_table_def)

subsection \<open>The upstream-to-client loop\<close>

lemma any_keyword_in_string: "\<exists>hit. any_keyword_in ks (JStr s) = Inr hit"
  by (induction ks) auto

lemma inspect_upstream_cases:
  "inspect_upstream lib recorded m =
    (case loads lib m of
       Inl e \<Rightarrow> Inl e
     | Inr (JDict msg) \<Rightarrow>
        (if dict_get msg ''type'' (JStr []) = JStr ''session.updated'' then
           (if Some (hash_str lib (dumps_sorted lib (dict_get msg ''session'' (JDict [])))) = recorded
            then Inr Suppress
            else
              (case py_get (dict_get msg ''session'' (JDict [])) ''avatar'' (JDict []) of
                 Inl e \<Rightarrow> Inl e
               | Inr avatar \<Rightarrow>
                   Inr (Forward (Some (hash_str lib
                     (dumps_sorted lib (dict_get msg ''session'' (JDict []))))))))
         else
           (case any_keyword_in log_keywords (dict_get msg ''type'' (JStr [])) of
              Inl e \<Rightarrow> Inl e
            | Inr hit \<Rightarrow> Inr (Forward recorded)))
     | Inr _ \<Rightarrow> Inl AttributeError)"
proof -
  obtain hit where "any_keyword_in log_keywords (JStr ''session.updated'') = Inr hit"
    using any_keyword_in_string by blast
  then show ?thesis
    unfolding inspect_upstream_def dict_get_def
    by (auto simp: Let_def split: sum.splits json.splits option.splits)
qed

text \<open>
  On the frames the upstream protocol is made of, the loop deduplicates as specified. A
  frame on which the decoder raises \<^verbatim>\<open>JSONDecodeError\<close> (it is not JSON) is forwarded
  and leaves the recorded hash alone; so does a JSON
  object whose type is a string other than "session.updated" (or is missing). A
  "session.updated" object whose session is an object (or is missing) is suppressed if
  and only if the hash of the sorted-keys serialisation of its session equals the
  recorded hash; otherwise it is forwarded and its hash recorded.
\<close>

theorem upstream_frame_verdict_protocol_frames:
  "(loads lib m = Inl JSONDecodeError \<longrightarrow>
      upstream_frame_verdict lib recorded m = Inr (Forward recorded)) \<and>
   (\<forall>msg t. loads lib m = Inr (JDict msg) \<and> dict_get msg ''type'' (JStr []) = JStr t \<and>
      t \<noteq> ''session.updated'' \<longrightarrow>
      upstream_frame_verdict lib recorded m = Inr (Forward recorded)) \<and>
   (\<forall>msg session. loads lib m = Inr (JDict msg) \<and>
      map_of msg ''type'' = Some (JStr ''session.updated'') \<and>
      dict_get msg ''session'' (JDict []) = JDict session \<longrightarrow>
      upstream_frame_verdict lib recorded m =
        (if Some (hash_str lib (dumps_sorted lib (JDict session))) = recorded then Inr Suppress
         else Inr (Forward (Some (hash_str lib (dumps_sorted lib (JDict session)))))))"
proof (intro conjI allI impI)
  assume "loads lib m = Inl JSONDecodeError"
  then show "upstream_frame_verdict lib recorded m = Inr (Forward recorded)"
    by (simp add: upstream_frame_verdict_def inspect_upstream_cases)
next
  fix msg t
  assume a: "loads lib m = Inr (JDict msg) \<and> dict_get msg ''type'' (JStr []) = JStr t \<and>
      t \<noteq> ''session.updated''"
  obtain hit where "any_keyword_in log_keywords (JStr t) = Inr hit"
    using any_keyword_in_string by blast
  with a show "upstream_frame_verdict lib recorded m = Inr (Forward recorded)"
    by (simp add: upstream_frame_verdict_def inspect_upstream_cases)
next
  fix msg session
  assume a: "loads lib m = Inr (JDict msg) \<and>
      map_of msg ''type'' = Some (JStr ''session.updated'') \<and>
      dict_get msg ''session'' (JDict []) = JDict session"
  then have "dict_get msg ''type'' (JStr []) = JStr ''session.updated''"
    by (simp add: dict_get_def)
  with a show "upstream_frame_verdict lib recorded m =
        (if Some (hash_str lib (dumps_sorted lib (JDict session))) = recorded then Inr Suppress
         else Inr (Forward (Some (hash_str lib (dumps_sorted lib (JDict session))))))"
    by (simp add: upstream_frame_verdict_def inspect_upstream_cases)
qed

text \<open>
  The specification's example: of two consecutive "session.updated" frames with the same
  session content the second is suppressed, and a third with different content is
  forwarded.
\<close>

theorem upstream_frame_verdict_protocol_frames_witness:
  \<open>upstream_frame_verdict
     (lib_table [(Text ''{"type":"session.updated","session":{"voice":"a"}}'',
        JDict [(''type'', JStr ''session.updated''), (''session'', JDict [(''voice'', JStr ''a'')])])])
     (Some 12) (Text ''{"type":"session.updated","session":{"voice":"a"}}'') = Inr Suppress \<and>
   forward_azure_to_client
     (lib_table
       [(Text ''{"type":"session.updated","session":{"voice":"a"}}'',
         JDict [(''type'', JStr ''session.updated''), (''session'', JDict [(''voice'', JStr ''a'')])]),
        (Text ''{"session":{"voice":"a"},"type":"session.updated"}'',
         JDict [(''session'', JDict [(''voice'', JStr ''a'')]), (''type'', JStr ''session.updated'')]),
        (Text ''{"type":"session.updated","session":{"voice":"bb"}}'',
         JDict [(''type'', JStr ''session.updated''), (''session'', JDict [(''voice'', JStr ''bb'')])])])
     always 0 None
     [Text ''{"type":"session.updated","session":{"voice":"a"}}'',
      Text ''{"session":{"voice":"a"},"type":"session.updated"}'',
      Text ''{"type":"session.updated","session":{"voice":"bb"}}'']
   = [Text ''{"type":"session.updated","session":{"voice":"a"}}'',
      Text ''{"type":"session.updated","session":{"voice":"bb"}}'']\<close>
  using upstream_frame_verdict_protocol_frames
    [of \<open>lib_table [(Text ''{"type":"session.updated","session":{"voice":"a"}}'',
        JDict [(''type'', JStr ''session.updated''), (''session'', JDict [(''voice'', JStr ''a'')])])]\<close>
        \<open>Text ''{"type":"session.updated","session":{"voice":"a"}}''\<close> "Some 12"]
  by (simp add: upstream_frame_verdict_def inspect_upstream_def lib_table_def loads_table_def
      dict_get_def always_def log_keywords_def sublist_code prefix_code)

text \<open>
  C2 fails on the code. The upstream frame \<^verbatim>\<open>{"type":"session.updated","session":null}\<close>
  has the parsed type "session.updated" and no hash is recorded yet, so C2 has its hash
  recorded and the frame forwarded. The log line after the hash is recorded calls
  \<^verbatim>\<open>.get("avatar", {})\<close> on \<^verbatim>\<open>None\<close>; the \<^verbatim>\<open>AttributeError\<close> is not a
  \<^verbatim>\<open>JSONDecodeError\<close>, so the frame is not forwarded and the loop ends: the binary
  frame after it is not forwarded either.
\<close>

theorem upstream_loop_ends_on_null_session:
  \<open>upstream_frame_verdict
     (lib_table [(Text ''{"type":"session.updated","session":null}'',
        JDict [(''type'', JStr ''session.updated''), (''session'', JNull)])])
     None (Text ''{"type":"session.updated","session":null}'') = Inl AttributeError \<and>
   forward_azure_to_client
     (lib_table [(Text ''{"type":"session.updated","session":null}'',
        JDict [(''type'', JStr ''session.updated''), (''session'', JNull)])])
     always 0 None
     [Text ''{"type":"session.updated","session":null}'', Binary ''pcm''] = []\<close>
  by (simp add: upstream_frame_verdict_def inspect_upstream_def lib_table_def loads_table_def)

subsection \<open>The initial session configuration\<close>

text \<open>
  C4, as amended. Let the process configuration carry the voice name and type. Then the
  initial session configuration is built and includes the fixed fields (modalities, turn
  detection, noise reduction, echo cancellation, avatar character and style, and the
  configured voice name and type). When the agent configuration is absent, empty or
  remote, none of model, instructions, temperature and max_response_output_tokens
  appears. When it is present and not remote, carries instructions, temperature and
  max_tokens, and the process configuration carries the default deployment name, the
  session holds instructions, temperature and max_response_output_tokens taken from the
  agent configuration, and a model that is the agent's model when it has one and the
  default deployment name otherwise.
\<close>

theorem initial_config_message_fields:
  assumes "cfg ''azure_voice_name'' = Some vn" and "cfg ''azure_voice_type'' = Some vt"
  shows "(\<not> is_local ac \<longrightarrow>
            (\<exists>msg. initial_config_message cfg ac = Inr msg \<and> fixed_defaults vn vt msg \<and>
                   no_agent_fields msg)) \<and>
         (is_local ac \<and> cfg ''model_deployment_name'' = Some dm \<and>
          map_of (the ac) ''instructions'' = Some i \<and> map_of (the ac) ''temperature'' = Some t \<and>
          map_of (the ac) ''max_tokens'' = Some n \<longrightarrow>
            (\<exists>msg. initial_config_message cfg ac = Inr msg \<and> fixed_defaults vn vt msg \<and>
                   session_field msg ''model'' = Some (dict_get (the ac) ''model'' (JStr dm)) \<and>
                   session_field msg ''instructions'' = Some i \<and>
                   session_field msg ''temperature'' = Some t \<and>
                   session_field msg ''max_response_output_tokens'' = Some n))"
proof (intro conjI impI)
  assume "\<not> is_local ac"
  then show "\<exists>msg. initial_config_message cfg ac = Inr msg \<and> fixed_defaults vn vt msg \<and>
                   no_agent_fields msg"
    using build_session_config_defaults[OF assms]
    by (auto simp: initial_config_message_def is_local_def)
next
  assume a: "is_local ac \<and> cfg ''model_deployment_name'' = Some dm \<and>
          map_of (the ac) ''instructions'' = Some i \<and> map_of (the ac) ''temperature'' = Some t \<and>
          map_of (the ac) ''max_tokens'' = Some n"
  obtain m0 where m0: "build_session_config cfg = Inr m0"
    using build_session_config_defaults[OF assms] by blast
  from a m0 add_local_agent_config_fields[OF assms, of dm "the ac" i t n m0]
  show "\<exists>msg. initial_config_message cfg ac = Inr msg \<and> fixed_defaults vn vt msg \<and>
                   session_field msg ''model'' = Some (dict_get (the ac) ''model'' (JStr dm)) \<and>
                   session_field msg ''instructions'' = Some i \<and>
                   session_field msg ''temperature'' = Some t \<and>
                   session_field msg ''max_response_output_tokens'' = Some n"
    by (auto simp: initial_config_message_def is_local_def)
qed

text \<open>
  The specification's example: a local agent with model "m", instructions "i",
  temperature 0.5 and max_tokens 100 gives a session with those four fields; a remote
  agent gives none of them.
\<close>

theorem initial_config_message_fields_witness:
  "initial_config_message example_config (Some local_agent) =
     Inr (JDict [(''type'', JStr ''session.update''),
          (''session'', JDict
            [(''modalities'', JList [JStr ''text'', JStr ''audio'']),
             (''turn_detection'', JDict [(''type'', JStr ''azure_semantic_vad'')]),
             (''input_audio_noise_reduction'', JDict [(''type'', JStr ''azure_deep_noise_suppression'')]),
             (''input_audio_echo_cancellation'', JDict [(''type'', JStr ''server_echo_cancellation'')]),
             (''avatar'', JDict [(''character'', JStr ''lisa''), (''style'', JStr ''casual-sitting'')]),
             (''voice'', JDict [(''name'', JStr ''en-US-Ava:DragonHDLatestNeural''),
                                (''type'', JStr ''azure-standard'')]),
             (''model'', JStr ''m''), (''instructions'', JStr ''i''),
             (''temperature'', JFloat (1 / 2)), (''max_response_output_tokens'', JInt 100)])]) \<and>
   initial_config_message example_config (Some remote_agent) =
     Inr (JDict [(''type'', JStr ''session.update''),
          (''session'', JDict
            [(''modalities'', JList [JStr ''text'', JStr ''audio'']),
             (''turn_detection'', JDict [(''type'', JStr ''azure_semantic_vad'')]),
             (''input_audio_noise_reduction'', JDict [(''type'', JStr ''azure_deep_noise_suppression'')]),
             (''input_audio_echo_cancellation'', JDict [(''type'', JStr ''server_echo_cancellation'')]),
             (''avatar'', JDict [(''character'', JStr ''lisa''), (''style'', JStr ''casual-sitting'')]),
             (''voice'', JDict [(''name'', JStr ''en-US-Ava:DragonHDLatestNeural''),
                                (''type'', JStr ''azure-standard'')])])])"
  using initial_config_message_fields
    [of example_config "''en-US-Ava:DragonHDLatestNeural''" "''azure-standard''" "Some local_agent"
        "''gpt-4o''" "JStr ''i''" "JFloat (1 / 2)" "JInt 100"]
    initial_config_message_fields
    [of example_config "''en-US-Ava:DragonHDLatestNeural''" "''azure-standard''" "Some remote_agent"]
  by (simp add: initial_config_message_def example_config_def build_session_config_def
      config_item_def agent_present_def agent_flag_def dict_get_def add_local_agent_config_def
      dict_item_def local_agent_def remote_agent_def session_consts)

text \<open>
  C4 as stated fails: a local agent configuration without a model gives a session whose
  model is the process-wide default deployment name "gpt-4o", which is not taken from
  the agent configuration.
\<close>

theorem initial_config_message_model_fallback:
  "map_of local_agent_without_model ''model'' = None \<and>
   initial_config_message example_config (Some local_agent_without_model) =
     Inr (JDict [(''type'', JStr ''session.update''),
          (''session'', JDict
            [(''modalities'', JList [JStr ''text'', JStr ''audio'']),
             (''turn_detection'', JDict [(''type'', JStr ''azure_semantic_vad'')]),
             (''input_audio_noise_reduction'', JDict [(''type'', JStr ''azure_deep_noise_suppression'')]),
             (''input_audio_echo_cancellation'', JDict [(''type'', JStr ''server_echo_cancellation'')]),
             (''avatar'', JDict [(''character'', JStr ''lisa''), (''style'', JStr ''casual-sitting'')]),
             (''voice'', JDict [(''name'', JStr ''en-US-Ava:DragonHDLatestNeural''),
                                (''type'', JStr ''azure-standard'')]),
             (''model'', JStr ''gpt-4o''), (''instructions'', JStr ''i''),
             (''temperature'', JFloat (1 / 2)), (''max_response_output_tokens'', JInt 100)])])"
  by (simp add: initial_config_message_def example_config_def build_session_config_def
      config_item_def agent_present_def agent_flag_def dict_get_def add_local_agent_config_def
      dict_item_def local_agent_without_model_def session_consts)

subsection \<open>The upstream URL\<close>

text \<open>
  C5, as amended. Let the process configuration carry the resource name. The URL is the
  common base (the fixed API version and the trace identifier generated for this call)
  followed by exactly one variant, chosen in this order: for a resolved remote agent,
  agent-id and agent-project-name, and connection-string when a project endpoint is
  configured; for a resolved agent that is not remote, when the default deployment name
  is configured, the model of the agent, or that default when the agent has none; with
  no resolved agent and a fixed agent identifier configured, that agent-id alone; with no
  resolved agent, the \<^verbatim>\<open>agent_id\<close> key configured empty and the default deployment name
  configured, that default alone. A resolved agent is an agent configuration that is not
  empty.
\<close>

theorem build_azure_url_variants:
  assumes "cfg ''azure_ai_resource_name'' = Some rn"
  shows "(is_remote ac \<longrightarrow>
            build_azure_url lib cfg rid agent_id ac =
              Inr (url_base rn rid @ ''&agent-id='' @ fmt_opt lib agent_id @
                   ''&agent-project-name='' @ fmt_str_opt (cfg ''azure_ai_project_name'') @
                   (if str_truthy (cfg ''project_endpoint'')
                    then ''&connection-string='' @ the (cfg ''project_endpoint'') else []))) \<and>
         (is_local ac \<and> cfg ''model_deployment_name'' = Some dm \<longrightarrow>
            build_azure_url lib cfg rid agent_id ac =
              Inr (url_base rn rid @ ''&model='' @ fmt lib (dict_get (the ac) ''model'' (JStr dm)))) \<and>
         (\<not> agent_present ac \<and> cfg ''agent_id'' = Some fixed \<and> fixed \<noteq> [] \<longrightarrow>
            build_azure_url lib cfg rid agent_id ac =
              Inr (url_base rn rid @ ''&agent-id='' @ fixed)) \<and>
         (\<not> agent_present ac \<and> cfg ''agent_id'' = Some [] \<and>
          cfg ''model_deployment_name'' = Some dm \<longrightarrow>
            build_azure_url lib cfg rid agent_id ac = Inr (url_base rn rid @ ''&model='' @ dm))"
  using build_base_azure_url_value[of cfg rn rid] assms
  by (auto simp: build_azure_url_def build_agent_specific_url_def is_remote_def is_local_def
      agent_flag_def agent_present_def config_item_def str_truthy_def split: option.splits)

theorem build_azure_url_variants_witness:
  "build_azure_url (lib_table []) (example_config(''project_endpoint'' \<mapsto> ''ep'')) ''u''
     (Some (JStr ''a1'')) (Some remote_agent) =
     Inr ''wss://res.cognitiveservices.azure.com/voice-agent/realtime?api-version=2025-05-01-preview&x-ms-client-request-id=u&agent-id=a1&agent-project-name=proj&connection-string=ep'' \<and>
   build_azure_url (lib_table []) example_config ''u'' (Some (JStr ''a2'')) (Some local_agent) =
     Inr ''wss://res.cognitiveservices.azure.com/voice-agent/realtime?api-version=2025-05-01-preview&x-ms-client-request-id=u&model=m'' \<and>
   build_azure_url (lib_table []) (example_config(''agent_id'' \<mapsto> ''fixed'')) ''u'' None None =
     Inr ''wss://res.cognitiveservices.azure.com/voice-agent/realtime?api-version=2025-05-01-preview&x-ms-client-request-id=u&agent-id=fixed'' \<and>
   build_azure_url (lib_table []) example_config ''u'' None None =
     Inr ''wss://res.cognitiveservices.azure.com/voice-agent/realtime?api-version=2025-05-01-preview&x-ms-client-request-id=u&model=gpt-4o''"
  using build_azure_url_variants
      [of "example_config(''project_endpoint'' \<mapsto> ''ep'')" "''res''" "Some remote_agent"
          "lib_table []" "''u''" "Some (JStr ''a1'')"]
    build_azure_url_variants
      [of example_config "''res''" "Some local_agent" "lib_table []" "''u''" "Some (JStr ''a2'')"
          "''gpt-4o''"]
    build_azure_url_variants
      [of "example_config(''agent_id'' \<mapsto> ''fixed'')" "''res''" None "lib_table []" "''u''" None
          "''gpt-4o''" "''fixed''"]
    build_azure_url_variants
      [of example_config "''res''" None "lib_table []" "''u''" None "''gpt-4o''"]
  by (simp add: example_config_def is_remote_def is_local_def agent_present_def agent_flag_def
      dict_get_def remote_agent_def local_agent_def url_base_def fmt_opt_def fmt_def
      fmt_str_opt_def str_truthy_def)

text \<open>
  C5 as stated fails: the builder reads the configuration by subscript, so not every
  process configuration gives a URL. A local agent with a model of its own and no
  default deployment name configured, no agent and no \<^verbatim>\<open>agent_id\<close> key, and a
  configuration without the resource name each raise \<^verbatim>\<open>KeyError\<close>.
\<close>

theorem build_azure_url_missing_keys:
  "build_azure_url (lib_table []) (example_config(''model_deployment_name'' := None)) ''u''
     (Some (JStr ''a2'')) (Some local_agent) = Inl KeyError \<and>
   build_azure_url (lib_table []) (example_config(''agent_id'' := None)) ''u'' None None =
     Inl KeyError \<and>
   build_azure_url (lib_table []) (example_config(''azure_ai_resource_name'' := None)) ''u''
     None None = Inl KeyError"
  by (simp add: build_azure_url_def build_base_azure_url_def build_agent_specific_url_def
      config_item_def example_config_def agent_present_def local_agent_def dict_get_def)

subsection \<open>Credentials\<close>

text \<open>
  C6, as amended. Credential selection fails (the connector logs the failure and returns
  none; the code has no \<^verbatim>\<open>AuthenticationError\<close>) in exactly these cases. For a remote
  agent: when the project name is not configured, before any token is requested; or,
  with the project name configured, when the token request under the primary scope and
  then the request under the fallback scope both fail. With the project name configured
  a token is always requested under the primary scope first and under the fallback scope
  only after the primary request failed, and selection succeeds with the first token
  obtained. For a local agent or no agent no token is requested: selection fails exactly
  when the static key is missing or empty, and succeeds with that key otherwise. Whenever
  selection fails, the connector returns that failure having attempted no connection.
\<close>

theorem credential_selection:
  "(is_remote ac \<and> \<not> str_truthy (config e ''azure_ai_project_name'') \<longrightarrow>
      authenticate e ac = ([], Inl MissingProjectName)) \<and>
   (is_remote ac \<and> str_truthy (config e ''azure_ai_project_name'') \<longrightarrow>
      (snd (authenticate e ac) = Inl TokenFailure \<longleftrightarrow>
         get_token e PRIMARY_SCOPE = None \<and> get_token e FALLBACK_SCOPE = None) \<and>
      (\<forall>f. snd (authenticate e ac) = Inl f \<longrightarrow> f = TokenFailure) \<and>
      (\<forall>t. get_token e PRIMARY_SCOPE = Some t \<longrightarrow>
         authenticate e ac =
           ([TokenRequested PRIMARY_SCOPE], Inr [(''Authorization'', ''Bearer '' @ t)])) \<and>
      (\<forall>t. get_token e PRIMARY_SCOPE = None \<and> get_token e FALLBACK_SCOPE = Some t \<longrightarrow>
         authenticate e ac =
           ([TokenRequested PRIMARY_SCOPE, TokenRequested FALLBACK_SCOPE],
            Inr [(''Authorization'', ''Bearer '' @ t)])) \<and>
      (get_token e PRIMARY_SCOPE = None \<and> get_token e FALLBACK_SCOPE = None \<longrightarrow>
         fst (authenticate e ac) = [TokenRequested PRIMARY_SCOPE, TokenRequested FALLBACK_SCOPE])) \<and>
   (\<not> is_remote ac \<longrightarrow>
      fst (authenticate e ac) = [] \<and>
      (snd (authenticate e ac) = Inl MissingApiKey \<longleftrightarrow>
         \<not> str_truthy (config e ''azure_openai_api_key'')) \<and>
      (\<forall>f. snd (authenticate e ac) = Inl f \<longrightarrow> f = MissingApiKey) \<and>
      (\<forall>k. config e ''azure_openai_api_key'' = Some k \<and> k \<noteq> [] \<longrightarrow>
         snd (authenticate e ac) = Inr [(''api-key'', k)])) \<and>
   (\<forall>f. str_truthy (config e ''azure_ai_resource_name'') \<and> resolve_agent e agent_id = Inr ac \<and>
        snd (authenticate e ac) = Inl f \<longrightarrow>
        connect_to_azure lib e agent_id = (fst (authenticate e ac), Inl f) \<and>
        (\<forall>url headers. ConnectAttempt url headers \<notin> set (fst (authenticate e ac))))"
  by (auto simp: authenticate_def is_remote_def agent_flag_default connect_to_azure_def
      str_truthy_def split: option.splits)

text \<open>
  The specification's example: the primary scope failing and the fallback scope giving a
  token is a success; both failing is a failure with no connection attempted.
\<close>

theorem credential_selection_witness:
  "authenticate (env_remote [(FALLBACK_SCOPE, ''tok2'')]) (Some remote_agent) =
     ([TokenRequested PRIMARY_SCOPE, TokenRequested FALLBACK_SCOPE],
      Inr [(''Authorization'', ''Bearer tok2'')]) \<and>
   authenticate (env_remote []) (Some remote_agent) =
     ([TokenRequested PRIMARY_SCOPE, TokenRequested FALLBACK_SCOPE], Inl TokenFailure) \<and>
   connect_to_azure (lib_table []) (env_remote []) (Some (JStr ''a1'')) =
     ([TokenRequested PRIMARY_SCOPE, TokenRequested FALLBACK_SCOPE], Inl TokenFailure)"
  using credential_selection [of "Some remote_agent" "env_remote [(FALLBACK_SCOPE, ''tok2'')]"]
    credential_selection [of "Some remote_agent" "env_remote []" "Some (JStr ''a1'')" "lib_table []"]
  by (simp add: is_remote_def agent_present_def agent_flag_def dict_get_def remote_agent_def
      env_remote_def example_config_def str_truthy_def PRIMARY_SCOPE_def FALLBACK_SCOPE_def
      resolve_agent_def agent_table_def authenticate_def)

text \<open>
  C6 as stated fails: for a remote agent without the project name configured no token is
  requested and selection fails, although the provider would give a token under the
  primary scope.
\<close>

theorem credential_selection_without_project_name:
  "get_token (env_remote [(PRIMARY_SCOPE, ''tok1'')]) PRIMARY_SCOPE = Some ''tok1'' \<and>
   authenticate
     ((env_remote [(PRIMARY_SCOPE, ''tok1'')])
        \<lparr>config := example_config(''azure_ai_project_name'' := None)\<rparr>)
     (Some remote_agent) = ([], Inl MissingProjectName) \<and>
   connect_to_azure (lib_table [])
     ((env_remote [(PRIMARY_SCOPE, ''tok1'')])
        \<lparr>config := example_config(''azure_ai_project_name'' := None)\<rparr>)
     (Some (JStr ''a1'')) = ([], Inl MissingProjectName)"
  by (simp add: authenticate_def connect_to_azure_def resolve_agent_def agent_table_def
      env_remote_def example_config_def remote_agent_def agent_present_def agent_flag_def
      dict_get_def str_truthy_def PRIMARY_SCOPE_def)

subsection \<open>The upstream connector\<close>

lemma connection_after_append:
  "connection_after opened (xs @ ys) = connection_after (connection_after opened xs) ys"
  by (induction xs arbitrary: opened) auto

lemma authenticate_events:
  "fst (authenticate e ac) = [] \<or> fst (authenticate e ac) = [TokenRequested PRIMARY_SCOPE] \<or>
   fst (authenticate e ac) = [TokenRequested PRIMARY_SCOPE, TokenRequested FALLBACK_SCOPE]"
  by (simp add: authenticate_def split: option.splits)

lemma connection_after_authenticate:
  "connection_after opened (fst (authenticate e ac) @ evs) = connection_after opened evs"
  using authenticate_events[of e ac] by auto

lemma connect_handlers_not_opened: "fst (connect_handlers False ex) = []"
  by (simp add: connect_handlers_def split: py_error.splits)

lemma connect_handlers_fails: "\<exists>f. snd (connect_handlers opened ex) = Inl f"
  by (simp add: connect_handlers_def split: py_error.splits)

lemma initial_config_message_raises:
  assumes "initial_config_message cfg ac = Inl ex"
  shows "ex = KeyError \<or> ex = TypeError"
proof -
  have build: "\<And>x. build_session_config cfg = Inl x \<Longrightarrow> x = KeyError"
    by (auto simp: build_session_config_def config_item_def split: option.splits)
  have getitem: "\<And>m k x. py_getitem m k = Inl x \<Longrightarrow> x = KeyError \<or> x = TypeError"
    subgoal for m k x by (cases m) (auto split: option.splits)
    done
  have add: "\<And>m d x. add_local_agent_config cfg m d = Inl x \<Longrightarrow> x = KeyError \<or> x = TypeError"
    subgoal for m d x
      using getitem[of m "''session''"]
      by (cases "py_getitem m ''session''")
        (auto simp: add_local_agent_config_def config_item_def dict_item_def split: option.splits)
    done
  show ?thesis
    using assms build add
    by (cases "build_session_config cfg")
      (auto simp: initial_config_message_def split: if_splits)
qed

lemma open_and_configure_success:
  assumes "snd (open_and_configure lib e ac url headers) = Inr ws"
  shows "\<exists>msg. fst (open_and_configure lib e ac url headers) =
            [ConnectAttempt url headers, UpstreamOpened, UpstreamSent (dumps lib msg)] \<and>
          initial_config_message (config e) ac = Inr msg"
  using assms
  by (auto simp: open_and_configure_def connect_handlers_def
      split: option.splits sum.splits send_outcome.splits py_error.splits)

lemma open_and_configure_failure:
  assumes "snd (open_and_configure lib e ac url headers) = Inl f"
  shows "\<not> upstream_open (fst (open_and_configure lib e ac url headers)) \<and>
         count_list (fst (open_and_configure lib e ac url headers)) UpstreamClosed \<le> 1 \<and>
         Relay \<notin> set (fst (open_and_configure lib e ac url headers)) \<and>
         (\<forall>j. ClientSent j \<notin> set (fst (open_and_configure lib e ac url headers)))"
proof (cases "connect_raises e")
  case (Some ex)
  then show ?thesis
    by (simp add: open_and_configure_def connect_handlers_def upstream_open_def
        split: py_error.splits)
next
  case None
  show ?thesis
  proof (cases "initial_config_message (config e) ac")
    case (Inl ex)
    from initial_config_message_raises[OF this] have "ex = KeyError \<or> ex = TypeError" .
    then show ?thesis
      using None Inl
      by (auto simp: open_and_configure_def connect_handlers_def upstream_open_def)
  next
    case (Inr msg)
    then show ?thesis
      using None assms
      by (auto simp: open_and_configure_def connect_handlers_def upstream_open_def
          split: send_outcome.splits)
  qed
qed

lemma open_and_configure_handshake:
  assumes "connect_raises e = Some ex"
  shows "open_and_configure lib e ac url headers =
           (ConnectAttempt url headers # fst (connect_handlers False ex),
            snd (connect_handlers False ex))"
  using assms by (simp add: open_and_configure_def)

text \<open>The connector, by cases, once the resource name is configured and the agent resolved.\<close>

lemma connect_to_azure_cases:
  assumes "str_truthy (config e ''azure_ai_resource_name'')"
    and "resolve_agent e agent_id = Inr ac"
  shows "connect_to_azure lib e agent_id =
     (case snd (authenticate e ac) of
        Inl f \<Rightarrow> (fst (authenticate e ac), Inl f)
      | Inr headers \<Rightarrow>
          (case build_azure_url lib (config e) (uuid4 e) agent_id ac of
             Inl ex \<Rightarrow> (fst (authenticate e ac), snd (connect_handlers False ex))
           | Inr url \<Rightarrow>
               (fst (authenticate e ac) @ fst (open_and_configure lib e ac url headers),
                snd (open_and_configure lib e ac url headers))))"
  using assms
  by (simp add: connect_to_azure_def connect_handlers_not_opened split: sum.splits)

lemma connect_to_azure_success:
  assumes "snd (connect_to_azure lib e agent_id) = Inr ws"
  shows "\<exists>ac url headers msg.
           resolve_agent e agent_id = Inr ac \<and>
           snd (authenticate e ac) = Inr headers \<and>
           build_azure_url lib (config e) (uuid4 e) agent_id ac = Inr url \<and>
           initial_config_message (config e) ac = Inr msg \<and>
           fst (connect_to_azure lib e agent_id) =
             fst (authenticate e ac) @
             [ConnectAttempt url headers, UpstreamOpened, UpstreamSent (dumps lib msg)]"
proof -
  have res: "str_truthy (config e ''azure_ai_resource_name'')"
    using assms by (auto simp: connect_to_azure_def split: if_splits)
  have "\<exists>ac. resolve_agent e agent_id = Inr ac"
  proof (cases "resolve_agent e agent_id")
    case (Inl ex)
    then have "snd (connect_to_azure lib e agent_id) = snd (connect_handlers False ex)"
      using res by (simp add: connect_to_azure_def)
    with assms connect_handlers_fails[of False ex] show ?thesis by simp
  qed simp
  then obtain ac where ac: "resolve_agent e agent_id = Inr ac" by blast
  note c = connect_to_azure_cases[OF res ac, of lib]
  have "\<exists>headers. snd (authenticate e ac) = Inr headers"
    using assms c by (cases "snd (authenticate e ac)") auto
  then obtain headers where h: "snd (authenticate e ac) = Inr headers" by blast
  have "\<exists>url. build_azure_url lib (config e) (uuid4 e) agent_id ac = Inr url"
  proof (cases "build_azure_url lib (config e) (uuid4 e) agent_id ac")
    case (Inl ex)
    then have "snd (connect_to_azure lib e agent_id) = snd (connect_handlers False ex)"
      using c h by simp
    with assms connect_handlers_fails[of False ex] show ?thesis by simp
  qed simp
  then obtain url where u: "build_azure_url lib (config e) (uuid4 e) agent_id ac = Inr url"
    by blast
  have "snd (open_and_configure lib e ac url headers) = Inr ws"
    using assms c h u by simp
  from open_and_configure_success[OF this] obtain msg where
    "fst (open_and_configure lib e ac url headers) =
       [ConnectAttempt url headers, UpstreamOpened, UpstreamSent (dumps lib msg)]"
    "initial_config_message (config e) ac = Inr msg" by blast
  with ac h u c show ?thesis by simp
qed

lemma connect_to_azure_failure:
  assumes "snd (connect_to_azure lib e agent_id) = Inl f"
  shows "\<not> upstream_open (fst (connect_to_azure lib e agent_id)) \<and>
         count_list (fst (connect_to_azure lib e agent_id)) UpstreamClosed \<le> 1 \<and>
         Relay \<notin> set (fst (connect_to_azure lib e agent_id)) \<and>
         (\<forall>j. ClientSent j \<notin> set (fst (connect_to_azure lib e agent_id)))"
proof (cases "str_truthy (config e ''azure_ai_resource_name'')")
  case False
  then show ?thesis by (simp add: connect_to_azure_def upstream_open_def)
next
  case res: True
  show ?thesis
  proof (cases "resolve_agent e agent_id")
    case (Inl ex)
    then show ?thesis
      using res by (simp add: connect_to_azure_def connect_handlers_not_opened upstream_open_def)
  next
    case (Inr ac)
    note c = connect_to_azure_cases[OF res Inr, of lib]
    have tok: "\<not> upstream_open (fst (authenticate e ac)) \<and>
        count_list (fst (authenticate e ac)) UpstreamClosed = 0 \<and>
        Relay \<notin> set (fst (authenticate e ac)) \<and>
        (\<forall>j. ClientSent j \<notin> set (fst (authenticate e ac)))"
      using authenticate_events[of e ac] by (auto simp: upstream_open_def)
    show ?thesis
    proof (cases "snd (authenticate e ac)")
      case (Inl g)
      then show ?thesis using c tok by simp
    next
      case headers: (Inr headers)
      show ?thesis
      proof (cases "build_azure_url lib (config e) (uuid4 e) agent_id ac")
        case (Inl ex)
        then show ?thesis using c headers tok by simp
      next
        case (Inr url)
        then have "snd (open_and_configure lib e ac url headers) = Inl f"
          using assms c headers by simp
        from open_and_configure_failure[OF this] show ?thesis
          using c headers Inr tok
          by (simp add: upstream_open_def connection_after_authenticate)
      qed
    qed
  qed
qed

text \<open>
  C8. When the connector returns a connection, it has attempted one connection with the
  selected headers and the built URL, the connection has opened, and the serialised
  initial session configuration has been sent on it, in this order and before the
  return. When it returns failure, no opened upstream connection is left behind: either
  none was opened, or the transport closed it (the send raised
  \<^verbatim>\<open>ConnectionClosed\<close>), or the connector called \<^verbatim>\<open>close\<close>. This covers the
  missing resource name (nothing is attempted), a rejected handshake (the status code is
  kept, nothing was opened) and every other failure of the transport.
\<close>

theorem connect_to_azure_contract:
  "(\<forall>ws. snd (connect_to_azure lib e agent_id) = Inr ws \<longrightarrow>
      (\<exists>ac url headers msg.
         resolve_agent e agent_id = Inr ac \<and>
         initial_config_message (config e) ac = Inr msg \<and>
         fst (connect_to_azure lib e agent_id) =
           fst (authenticate e ac) @
           [ConnectAttempt url headers, UpstreamOpened, UpstreamSent (dumps lib msg)])) \<and>
   (\<forall>f. snd (connect_to_azure lib e agent_id) = Inl f \<longrightarrow>
      \<not> upstream_open (fst (connect_to_azure lib e agent_id))) \<and>
   (\<not> str_truthy (config e ''azure_ai_resource_name'') \<longrightarrow>
      connect_to_azure lib e agent_id = ([], Inl MissingConfiguration)) \<and>
   (\<forall>url headers ex. ConnectAttempt url headers \<in> set (fst (connect_to_azure lib e agent_id)) \<and>
      connect_raises e = Some ex \<longrightarrow>
      snd (connect_to_azure lib e agent_id) =
        (case ex of
           InvalidStatusCode code \<Rightarrow> Inl (HandshakeRejected code)
         | WebSocketException \<Rightarrow> Inl WebSocketFailure
         | _ \<Rightarrow> Inl GenericFailure) \<and>
      UpstreamOpened \<notin> set (fst (connect_to_azure lib e agent_id)))"
proof (intro conjI allI impI)
  fix ws
  assume "snd (connect_to_azure lib e agent_id) = Inr ws"
  from connect_to_azure_success[OF this]
  show "\<exists>ac url headers msg.
         resolve_agent e agent_id = Inr ac \<and>
         initial_config_message (config e) ac = Inr msg \<and>
         fst (connect_to_azure lib e agent_id) =
           fst (authenticate e ac) @
           [ConnectAttempt url headers, UpstreamOpened, UpstreamSent (dumps lib msg)]"
    by blast
next
  fix f
  assume "snd (connect_to_azure lib e agent_id) = Inl f"
  from connect_to_azure_failure[OF this]
  show "\<not> upstream_open (fst (connect_to_azure lib e agent_id))" by blast
next
  assume "\<not> str_truthy (config e ''azure_ai_resource_name'')"
  then show "connect_to_azure lib e agent_id = ([], Inl MissingConfiguration)"
    by (simp add: connect_to_azure_def)
next
  fix url headers ex
  assume a: "ConnectAttempt url headers \<in> set (fst (connect_to_azure lib e agent_id)) \<and>
      connect_raises e = Some ex"
  have tok: "\<And>ac. ConnectAttempt url headers \<notin> set (fst (authenticate e ac)) \<and>
      UpstreamOpened \<notin> set (fst (authenticate e ac))"
    subgoal for ac using authenticate_events[of e ac] by auto
    done
  have res: "str_truthy (config e ''azure_ai_resource_name'')"
    using a by (auto simp: connect_to_azure_def split: if_splits)
  obtain ac where ac: "resolve_agent e agent_id = Inr ac"
    using a res by (cases "resolve_agent e agent_id")
      (auto simp: connect_to_azure_def connect_handlers_not_opened)
  note c = connect_to_azure_cases[OF res ac, of lib]
  obtain h where h: "snd (authenticate e ac) = Inr h"
    using a c tok[of ac] by (cases "snd (authenticate e ac)") auto
  obtain u where u: "build_azure_url lib (config e) (uuid4 e) agent_id ac = Inr u"
    using a c h tok[of ac]
    by (cases "build_azure_url lib (config e) (uuid4 e) agent_id ac") auto
  have run: "connect_to_azure lib e agent_id =
      (fst (authenticate e ac) @ ConnectAttempt u h # fst (connect_handlers False ex),
       snd (connect_handlers False ex))"
    using a c h u by (simp add: open_and_configure_handshake)
  show "snd (connect_to_azure lib e agent_id) =
        (case ex of
           InvalidStatusCode code \<Rightarrow> Inl (HandshakeRejected code)
         | WebSocketException \<Rightarrow> Inl WebSocketFailure
         | _ \<Rightarrow> Inl GenericFailure)"
    unfolding run by (simp add: connect_handlers_def split: py_error.splits)
  show "UpstreamOpened \<notin> set (fst (connect_to_azure lib e agent_id))"
    unfolding run using tok[of ac] by (simp add: connect_handlers_not_opened)
qed

text \<open>
  With a static key and no agent: the connector succeeds when the send returns, and
  leaves nothing open when the send finds the connection closed, or raises otherwise
  (then \<^verbatim>\<open>close\<close> is called).
\<close>

theorem connect_to_azure_contract_witness:
  "connect_to_azure (lib_table []) (env_static_key SendOk) None =
   ([ConnectAttempt
       ''wss://res.cognitiveservices.azure.com/voice-agent/realtime?api-version=2025-05-01-preview&x-ms-client-request-id=u&model=gpt-4o''
       [(''api-key'', ''key'')],
     UpstreamOpened,
     UpstreamSent
       ''{type:<session.update>,session:{modalities:[<text>,<audio>,],turn_detection:{type:<azure_semantic_vad>,},input_audio_noise_reduction:{type:<azure_deep_noise_suppression>,},input_audio_echo_cancellation:{type:<server_echo_cancellation>,},avatar:{character:<lisa>,style:<casual-sitting>,},voice:{name:<en-US-Ava:DragonHDLatestNeural>,type:<azure-standard>,},},}''],
    Inr ()) \<and>
   connect_to_azure (lib_table []) (env_static_key SendConnectionClosed) None =
   ([ConnectAttempt
       ''wss://res.cognitiveservices.azure.com/voice-agent/realtime?api-version=2025-05-01-preview&x-ms-client-request-id=u&model=gpt-4o''
       [(''api-key'', ''key'')],
     UpstreamOpened, UpstreamLost], Inl WebSocketFailure) \<and>
   \<not> upstream_open (fst (connect_to_azure (lib_table []) (env_static_key SendConnectionClosed) None)) \<and>
   connect_to_azure (lib_table []) (env_static_key SendOtherError) None =
   ([ConnectAttempt
       ''wss://res.cognitiveservices.azure.com/voice-agent/realtime?api-version=2025-05-01-preview&x-ms-client-request-id=u&model=gpt-4o''
       [(''api-key'', ''key'')],
     UpstreamOpened, UpstreamClosed], Inl GenericFailure)"
  using connect_to_azure_contract [of "lib_table []" "env_static_key SendOk" None]
    connect_to_azure_contract [of "lib_table []" "env_static_key SendConnectionClosed" None]
  by (simp add: connect_to_azure_def open_and_configure_def resolve_agent_def authenticate_def
      agent_present_def env_static_key_def example_config_def str_truthy_def build_azure_url_def
      build_base_azure_url_def config_item_def url_consts initial_config_message_def
      build_session_config_def session_consts lib_table_def connect_handlers_def
      upstream_open_def)

subsection \<open>The connection handler\<close>

text \<open>
  C7 fails on the code. With a fixed agent identifier configured, the handler calls
  \<^verbatim>\<open>agent_manager.create_or_get_agent\<close> before its \<^verbatim>\<open>try\<close>. When that call
  raises, the exception leaves \<^verbatim>\<open>handle_connection\<close>: no handler of the function is
  in scope, and no error frame is sent to the client.
\<close>

theorem handle_connection_raises_before_try:
  "handle_connection (lib_table []) env_fixed_agent_fails =
   ([EnsureAgent ''predefined''
       (JDict
         [(''messages'', JList [JDict [(''content'', JStr ''You are a helpful assistant.'')]]),
          (''model'', JStr ''gpt-4o''),
          (''modelParameters'',
           JDict [(''temperature'', JFloat (7 / 10)), (''max_tokens'', JInt 2000)])])],
    Some OtherException)"
  by (simp add: handle_connection_def identify_agent_def env_fixed_agent_fails_def
      example_config_def str_truthy_def dummy_scenario_def)

lemma get_agent_id_from_client_returns:
  "\<exists>r. get_agent_id_from_client lib client = Inr r"
  by (simp add: get_agent_id_from_client_def split: sum.splits)

lemma identify_agent_events:
  "\<not> upstream_open (fst (identify_agent lib e)) \<and>
   count_list (fst (identify_agent lib e)) UpstreamClosed = 0 \<and>
   UpstreamClosed \<notin> set (fst (identify_agent lib e)) \<and>
   Relay \<notin> set (fst (identify_agent lib e)) \<and>
   (\<forall>j. ClientSent j \<notin> set (fst (identify_agent lib e))) \<and>
   (\<forall>opened evs. connection_after opened (fst (identify_agent lib e) @ evs) =
      connection_after opened evs)"
  by (simp add: identify_agent_def upstream_open_def)

lemma identify_agent_raises:
  "(\<exists>ex. snd (identify_agent lib e) = Inl ex) \<longleftrightarrow>
   str_truthy (config e ''agent_id'') \<and> ensure_agent_raises e \<noteq> None"
  using get_agent_id_from_client_returns[of lib "first_receive e"]
  by (auto simp: identify_agent_def split: option.splits)

text \<open>
  What holds of the handler on every path. It raises exactly when a fixed agent
  identifier is configured and \<^verbatim>\<open>create_or_get_agent\<close> raises. When it returns, no
  upstream connection is left open, and \<^verbatim>\<open>close\<close> has been called at most once. When
  the connector fails, the last thing the handler does is to send the client the
  structured error frame, and it starts no forwarding. When the connector succeeds, the
  handler sends \<^verbatim>\<open>proxy.connected\<close>, runs the forwarding stage and calls
  \<^verbatim>\<open>close\<close> once, as its last action, whatever the forwarding stage met; it sends no
  error frame.
\<close>

theorem handle_connection_paths:
  "(snd (handle_connection lib e) \<noteq> None \<longleftrightarrow>
      str_truthy (config e ''agent_id'') \<and> ensure_agent_raises e \<noteq> None) \<and>
   \<not> upstream_open (fst (handle_connection lib e)) \<and>
   count_list (fst (handle_connection lib e)) UpstreamClosed \<le> 1 \<and>
   (snd (handle_connection lib e) = None \<longrightarrow>
      (\<exists>pre. fst (handle_connection lib e) =
          pre @ [ClientSent (error_frame ''Failed to connect to Azure Voice API'')] \<and>
          Relay \<notin> set pre) \<or>
      (\<exists>pre. fst (handle_connection lib e) =
          pre @ [ClientSent proxy_connected, Relay, UpstreamClosed] \<and>
          UpstreamClosed \<notin> set pre \<and> (\<forall>j. ClientSent j \<notin> set pre)))"
proof (cases "snd (identify_agent lib e)")
  case (Inl ex)
  then have "handle_connection lib e = (fst (identify_agent lib e), Some ex)"
    by (simp add: handle_connection_def)
  moreover have "str_truthy (config e ''agent_id'') \<and> ensure_agent_raises e \<noteq> None"
    using Inl identify_agent_raises[of lib e] by blast
  ultimately show ?thesis
    using identify_agent_events[of lib e] by simp
next
  case (Inr r)
  have noraise: "\<not> (str_truthy (config e ''agent_id'') \<and> ensure_agent_raises e \<noteq> None)"
    using Inr identify_agent_raises[of lib e] by auto
  note ident = identify_agent_events[of lib e]
  show ?thesis
  proof (cases "snd (connect_to_azure lib e r)")
    case (Inl f)
    from connect_to_azure_failure[OF this]
    have ev: "\<not> upstream_open (fst (connect_to_azure lib e r))"
      "count_list (fst (connect_to_azure lib e r)) UpstreamClosed \<le> 1"
      "Relay \<notin> set (fst (connect_to_azure lib e r))" by blast+
    have hc: "handle_connection lib e =
        ((fst (identify_agent lib e) @ fst (connect_to_azure lib e r)) @
           [ClientSent (error_frame ''Failed to connect to Azure Voice API'')], None)"
      using Inr Inl by (simp add: handle_connection_def)
    have "\<not> upstream_open (fst (handle_connection lib e))"
      using ev(1) ident unfolding hc
      by (simp add: upstream_open_def connection_after_append)
    moreover have "count_list (fst (handle_connection lib e)) UpstreamClosed \<le> 1"
      using ev(2) ident unfolding hc by simp
    moreover have "Relay \<notin> set (fst (identify_agent lib e) @ fst (connect_to_azure lib e r))"
      using ev(3) ident by simp
    ultimately show ?thesis using noraise hc by auto
  next
    case ok: (Inr ws)
    from connect_to_azure_success[OF this] obtain ac url headers msg where
      ev: "fst (connect_to_azure lib e r) =
             fst (authenticate e ac) @
             [ConnectAttempt url headers, UpstreamOpened, UpstreamSent (dumps lib msg)]"
      by blast
    have tok: "UpstreamClosed \<notin> set (fst (authenticate e ac)) \<and>
        (\<forall>j. ClientSent j \<notin> set (fst (authenticate e ac)))"
      using authenticate_events[of e ac] by auto
    have hc: "handle_connection lib e =
        ((fst (identify_agent lib e) @ fst (connect_to_azure lib e r)) @
           [ClientSent proxy_connected, Relay, UpstreamClosed], None)"
      using Inr ok by (simp add: handle_connection_def)
    have pre: "UpstreamClosed \<notin> set (fst (identify_agent lib e) @ fst (connect_to_azure lib e r))"
      "\<forall>j. ClientSent j \<notin> set (fst (identify_agent lib e) @ fst (connect_to_azure lib e r))"
      using ident tok unfolding ev by auto
    have "\<not> upstream_open (fst (handle_connection lib e))"
      unfolding hc by (simp add: upstream_open_def connection_after_append)
    moreover have "count_list (fst (handle_connection lib e)) UpstreamClosed \<le> 1"
      using pre(1) unfolding hc by (simp add: count_list_0_iff)
    ultimately show ?thesis using noraise hc pre by auto
  qed
qed

theorem handle_connection_paths_witness:
  "snd (handle_connection (lib_table []) (env_static_key SendOk)) = None \<and>
   count_list (fst (handle_connection (lib_table []) (env_static_key SendOk))) UpstreamClosed = 1 \<and>
   last (fst (handle_connection (lib_table []) (env_static_key SendOk))) = UpstreamClosed \<and>
   handle_connection (lib_table []) (env_static_key SendConnectionClosed) =
   ([ConnectAttempt
       ''wss://res.cognitiveservices.azure.com/voice-agent/realtime?api-version=2025-05-01-preview&x-ms-client-request-id=u&model=gpt-4o''
       [(''api-key'', ''key'')],
     UpstreamOpened, UpstreamLost,
     ClientSent (JDict [(''type'', JStr ''error''),
        (''error'', JDict [(''message'', JStr ''Failed to connect to Azure Voice API'')])])],
    None)"
  using handle_connection_paths [of "lib_table []" "env_static_key SendOk"]
  by (simp add: handle_connection_def identify_agent_def get_agent_id_from_client_def
      get_agent_id_body_def wait_for_def client_silent_def connect_to_azure_def
      open_and_configure_def resolve_agent_def authenticate_def agent_present_def
      env_static_key_def example_config_def str_truthy_def build_azure_url_def
      build_base_azure_url_def config_item_def url_consts initial_config_message_def
      build_session_config_def connect_handlers_def error_frame_def)

end
